theory Spec2Isabelle
  imports Main "HOL-Library.Sublist"
begin

section \<open>Values of the scripting host\<close>

text \<open>
  The scripts are Google Apps Script (JavaScript). A spreadsheet cell read with
  \<^verbatim>\<open>getValues()\<close> is a string, a number, a boolean or a Date object; an empty cell is
  the empty string. Object properties that were never set are \<^verbatim>\<open>undefined\<close>, and the
  edit handler writes \<^verbatim>\<open>null\<close> for an absent date. One datatype carries all of them.

  Modelling decisions:
  \<^item> a string is a list of code units below 256 (the type \<open>string\<close>); the letters with an
    accent in the script's literals are written by their code (\<open>CHR 0xED\<close> and so on);
    the texts are those of \<^verbatim>\<open>src/unnamed/part_002\<close>, whose copy \<^verbatim>\<open>src/Notificaciones.gs\<close>
    differs only by a pictogram in front of some subjects and labels;
  \<^item> a number cell holds an integer; a Date is its time value in milliseconds since
    the epoch;
  \<^item> diagnostic output of \<^verbatim>\<open>Logger.log\<close> is not part of the model.
\<close>

datatype jsval =
    Str string
  | Num int
  | Bool bool
  | Date int
  | Null
  | Undefined

text \<open>What only the host decides is a parameter of the model: how a Date prints, how a
  string parses as a date, the clock, the offset of the script's time zone, and whether a
  call into Gmail, Calendar or the audit sheet completes (\<open>None\<close>) or throws with a
  message. The clock does not advance inside one invocation.\<close>

datatype calendar_lookup = CalendarThrows string | CalendarNull | CalendarFound

record host =
  now :: int
  tzOffset :: int
  dateToString :: "int \<Rightarrow> string"
  toLocaleString :: "int \<Rightarrow> string"
  toLocaleDateString :: "int \<Rightarrow> string"
  Date_parse :: "string \<Rightarrow> int option"
  GmailApp_sendEmail :: "jsval \<Rightarrow> string option"
  CalendarApp_getCalendarById :: "jsval \<Rightarrow> calendar_lookup"
  calendar_createEvent :: "string option"
  sheet_appendRow :: "string option"

subsection \<open>Coercions\<close>

definition digit :: "nat \<Rightarrow> char" where
  "digit d = ''0123456789'' ! d"

fun show_nat :: "nat \<Rightarrow> string" where
  "show_nat n = (if n < 10 then [digit n] else show_nat (n div 10) @ [digit (n mod 10)])"

declare show_nat.simps [simp del]

definition show_int :: "int \<Rightarrow> string" where
  "show_int i = (if i < 0 then CHR ''-'' # show_nat (nat (- i)) else show_nat (nat i))"

text \<open>\<^verbatim>\<open>ToBoolean\<close>: what \<^verbatim>\<open>x ? a : b\<close>, \<^verbatim>\<open>!x\<close>, \<^verbatim>\<open>x && y\<close> and \<^verbatim>\<open>x || y\<close> test.\<close>

fun truthy :: "jsval \<Rightarrow> bool" where
  "truthy (Str s) = (s \<noteq> [])"
| "truthy (Num n) = (n \<noteq> 0)"
| "truthy (Bool b) = b"
| "truthy (Date t) = True"
| "truthy Null = False"
| "truthy Undefined = False"

text \<open>\<^verbatim>\<open>x || d\<close>\<close>

definition or_else :: "jsval \<Rightarrow> jsval \<Rightarrow> jsval" where
  "or_else x d = (if truthy x then x else d)"

text \<open>\<^verbatim>\<open>ToString\<close>, as \<^verbatim>\<open>x.toString()\<close>, a template literal and a property key apply it.\<close>

fun toString :: "host \<Rightarrow> jsval \<Rightarrow> string" where
  "toString h (Str s) = s"
| "toString h (Num n) = show_int n"
| "toString h (Bool b) = (if b then ''true'' else ''false'')"
| "toString h (Date t) = dateToString h t"
| "toString h Null = ''null''"
| "toString h Undefined = ''undefined''"

text \<open>\<^verbatim>\<open>a === b\<close>. Two Date objects are equal only when they are the same object, and
  every \<^verbatim>\<open>getValues()\<close> call builds new ones, so dates read by different calls never
  compare equal.\<close>

fun strict_eq :: "jsval \<Rightarrow> jsval \<Rightarrow> bool" where
  "strict_eq (Date t) y = False"
| "strict_eq x (Date t) = False"
| "strict_eq x y = (x = y)"

text \<open>White space as \<^verbatim>\<open>String.prototype.trim\<close> and the class \<^verbatim>\<open>\s\<close> know it, among the
  code units below 256: tab, line feed, vertical tab, form feed, carriage return, space
  and the no-break space.\<close>

definition isSpace :: "char \<Rightarrow> bool" where
  "isSpace c = (c \<in> set [CHR 0x09, CHR 0x0A, CHR 0x0B, CHR 0x0C, CHR 0x0D, CHR 0x20, CHR 0xA0])"

definition trim :: "string \<Rightarrow> string" where
  "trim s = rev (dropWhile isSpace (rev (dropWhile isSpace s)))"

text \<open>\<^verbatim>\<open>new Date(x)\<close>, as its time value; \<open>None\<close> is the invalid date (time value NaN).
  A Date copies, a string parses (the empty string is no date), a number is the time
  value when it is within the range of dates, a boolean counts as 0 or 1, \<^verbatim>\<open>null\<close> as 0.\<close>

fun new_Date :: "host \<Rightarrow> jsval \<Rightarrow> int option" where
  "new_Date h (Date t) = Some t"
| "new_Date h (Str s) = (if s = [] then None else Date_parse h s)"
| "new_Date h (Num n) = (if \<bar>n\<bar> \<le> 8640000000000000 then Some n else None)"
| "new_Date h (Bool b) = Some (if b then 1 else 0)"
| "new_Date h Null = Some 0"
| "new_Date h Undefined = None"

section \<open>The spreadsheet and the world around it\<close>

text \<open>A sheet is the array \<^verbatim>\<open>getDataRange().getValues()\<close> returns: rows of cells, row 1
  (index 0) the header. The array is rectangular and as wide as the widest row, and the
  header row names every column of the sheet's schema, so a cell the rows list does not
  store reads as the empty string.\<close>

type_synonym sheet = "jsval list list"

definition cellAt :: "jsval list \<Rightarrow> nat \<Rightarrow> jsval" where
  "cellAt r k = (if k < length r then r ! k else Str [])"

definition rowAt :: "sheet \<Rightarrow> nat \<Rightarrow> jsval list" where
  "rowAt data i = (if i < length data then data ! i else [])"

text \<open>The user object: the seven columns Name, Email, Role, Group, Active, DateRegistered,
  LastAccess.\<close>

record user =
  name :: jsval
  email :: jsval
  role :: jsval
  group :: jsval
  active :: bool
  dateRegistered :: jsval
  lastAccess :: jsval

text \<open>The object \<^verbatim>\<open>logEvent\<close> receives; a property the caller leaves out is \<open>Undefined\<close>.\<close>

record log_event =
  ev_type :: jsval
  ev_user :: jsval
  ev_details :: jsval
  ev_status :: jsval
  ev_action :: jsval

text \<open>An entry of the report of the daily check.\<close>

record inactivo =
  i_name :: jsval
  i_group :: jsval
  i_days :: nat

record mail =
  m_recipient :: jsval
  m_subject :: string
  m_body :: string
  m_htmlBody :: "string option"

record cal_event =
  c_title :: string
  c_start :: int
  c_end :: int
  c_description :: string
  c_sendInvites :: bool

text \<open>The calls the scripts make, in the order they make them: a write to a cell of the
  sheet Usuarios, and the calls of \<^verbatim>\<open>logEvent\<close>, \<^verbatim>\<open>sendNotification\<close>,
  \<^verbatim>\<open>sendHtmlNotification\<close> and \<^verbatim>\<open>createCalendarEvent\<close> with their arguments. The trace
  records a call whether or not it went through; nothing reads it.\<close>

datatype call =
    SetValue nat nat jsval
  | LogEvent log_event
  | SendNotification string string
  | SendHtmlNotification string string
  | CreateCalendarEvent string string int int

record world =
  usuarios :: "sheet option"
  configuracion :: "sheet option"
  registroDeEventos :: "sheet option"
  outbox :: "mail list"
  agenda :: "cal_event list"
  calls :: "call list"

text \<open>A function of the script returns a value or throws; either way it leaves a world
  behind.\<close>

datatype 'a outcome = Ret 'a world | Throw string world

definition seq :: "(world \<Rightarrow> 'a outcome) \<Rightarrow> ('a \<Rightarrow> world \<Rightarrow> 'b outcome) \<Rightarrow> world \<Rightarrow> 'b outcome" where
  "seq m f w = (case m w of Ret a w' \<Rightarrow> f a w' | Throw e w' \<Rightarrow> Throw e w')"

definition try_catch :: "(world \<Rightarrow> 'a outcome) \<Rightarrow> (string \<Rightarrow> world \<Rightarrow> 'a outcome) \<Rightarrow> world \<Rightarrow> 'a outcome" where
  "try_catch m handler w = (case m w of Ret a w' \<Rightarrow> Ret a w' | Throw e w' \<Rightarrow> handler e w')"

definition record_call :: "call \<Rightarrow> world \<Rightarrow> world" where
  "record_call c w = w\<lparr>calls := calls w @ [c]\<rparr>"

section \<open>Code.gs: configuration, users, audit log\<close>

text \<open>The functions of \<^verbatim>\<open>src/unnamed/part_001\<close> (with comments: \<^verbatim>\<open>src/Documentacion\<close>).\<close>

text \<open>\<^verbatim>\<open>getConfig\<close>: the object built from the rows of the sheet Configuracion, a later
  row overwriting an earlier one with the same key; a key no row sets reads as
  \<open>Undefined\<close>. A missing sheet is the one \<^verbatim>\<open>throw\<close> of the scripts.\<close>

definition getConfig :: "host \<Rightarrow> world \<Rightarrow> (string \<Rightarrow> jsval) outcome" where
  "getConfig h w =
     (case configuracion w of
        None \<Rightarrow> Throw (''Hoja Configuraci'' @ [CHR 0xF3] @ ''n no encontrada'') w
      | Some data \<Rightarrow>
          Ret (fold (\<lambda>r config. config(toString h (cellAt r 0) := cellAt r 1))
                 (drop 1 data) (\<lambda>k. Undefined)) w)"

text \<open>\<^verbatim>\<open>getUsers\<close>: one object per row below the header whose name cell is truthy; the
  cells are kept as they are, except Active.\<close>

definition getUsers_entry :: "jsval list \<Rightarrow> user" where
  "getUsers_entry r =
     \<lparr> name = cellAt r 0,
       email = cellAt r 1,
       role = cellAt r 2,
       group = cellAt r 3,
       active = (cellAt r 4 = Bool True \<or> cellAt r 4 = Str ''TRUE''),
       dateRegistered = cellAt r 5,
       lastAccess = cellAt r 6 \<rparr>"

definition getUsers :: "world \<Rightarrow> user list outcome" where
  "getUsers w =
     (case usuarios w of
        None \<Rightarrow> Ret [] w
      | Some data \<Rightarrow> Ret (map getUsers_entry (filter (\<lambda>r. truthy (cellAt r 0)) (drop 1 data))) w)"

text \<open>\<^verbatim>\<open>getDaysSinceLastAccess\<close>: \<^verbatim>\<open>Math.floor(Math.abs(today - lastAccess) / 86400000)\<close>.
  \<open>None\<close> is NaN, which an invalid date gives. Time values are integers of magnitude at
  most 8.64e15, so the difference is exact in a double and the floor of the rounded
  quotient is the integer quotient. The caller compares the result with 7, and a
  comparison with NaN is false.\<close>

definition getDaysSinceLastAccess :: "host \<Rightarrow> jsval \<Rightarrow> nat option" where
  "getDaysSinceLastAccess h lastAccessDate =
     (case new_Date h lastAccessDate of
        None \<Rightarrow> None
      | Some t \<Rightarrow> Some (nat (\<bar>now h - t\<bar> div (1000 * 60 * 60 * 24))))"

text \<open>\<^verbatim>\<open>sheet.appendRow\<close> on the sheet RegistroDeEventos.\<close>

definition appendRow :: "host \<Rightarrow> jsval list \<Rightarrow> world \<Rightarrow> unit outcome" where
  "appendRow h r w =
     (case sheet_appendRow h of
        Some msg \<Rightarrow> Throw msg w
      | None \<Rightarrow> Ret () (w\<lparr>registroDeEventos := map_option (\<lambda>data. data @ [r]) (registroDeEventos w)\<rparr>))"

text \<open>\<^verbatim>\<open>logEvent\<close>: appends one row to the audit sheet; without the sheet it returns, and
  what the append throws is caught.\<close>

definition audit_row :: "host \<Rightarrow> log_event \<Rightarrow> jsval list" where
  "audit_row h event =
     [Date (now h),
      or_else (ev_type event) (Str ''EVENTO''),
      or_else (ev_user event) (Str ''Sistema''),
      or_else (ev_details event) (Str []),
      or_else (ev_status event) (Str ''OK''),
      or_else (ev_action event) (Str ''Ninguna'')]"

definition logEvent :: "host \<Rightarrow> log_event \<Rightarrow> world \<Rightarrow> unit outcome" where
  "logEvent h event w =
     try_catch
       (\<lambda>w1. case registroDeEventos w1 of
                None \<Rightarrow> Ret () w1
              | Some data \<Rightarrow> appendRow h (audit_row h event) w1)
       (\<lambda>error. Ret ())
       (record_call (LogEvent event) w)"

section \<open>Notifications.gs: the gateways\<close>

text \<open>The functions of \<^verbatim>\<open>src/Notificaciones.gs\<close>, which the second half of
  \<^verbatim>\<open>src/unnamed/part_002\<close> repeats with comments.\<close>

text \<open>The test of \<^verbatim>\<open>/^[^\s@]+@[^\s@]+\.[^\s@]+$/\<close>: a non-empty run of characters that are
  neither white space nor \<open>@\<close>, an \<open>@\<close>, and to the end of the string such characters
  again, with a dot that is neither the first nor the last of them.\<close>

definition plain :: "char \<Rightarrow> bool" where
  "plain c = (\<not> isSpace c \<and> c \<noteq> CHR ''@'')"

definition emailRegex_test :: "string \<Rightarrow> bool" where
  "emailRegex_test s =
     (let local = takeWhile plain s in
        local \<noteq> [] \<and>
        (case drop (length local) s of
           [] \<Rightarrow> False
         | c # rest \<Rightarrow> c = CHR ''@'' \<and> list_all plain rest \<and> CHR ''.'' \<in> set (butlast (tl rest))))"

text \<open>\<^verbatim>\<open>GmailApp.sendEmail\<close>: the mail is in the outbox when the call completes.\<close>

definition sendEmail :: "host \<Rightarrow> jsval \<Rightarrow> string \<Rightarrow> string \<Rightarrow> string option \<Rightarrow> world \<Rightarrow> unit outcome" where
  "sendEmail h recipient subject body html w =
     (case GmailApp_sendEmail h recipient of
        Some msg \<Rightarrow> Throw msg w
      | None \<Rightarrow>
          Ret () (w\<lparr>outbox := outbox w @
            [\<lparr>m_recipient = recipient, m_subject = subject, m_body = body, m_htmlBody = html\<rparr>]\<rparr>))"

definition sendNotification :: "host \<Rightarrow> string \<Rightarrow> string \<Rightarrow> world \<Rightarrow> bool outcome" where
  "sendNotification h subject body w =
     try_catch
       (seq (getConfig h) (\<lambda>config w1.
          if config ''notificarAdmins'' \<noteq> Bool True \<and> config ''notificarAdmins'' \<noteq> Str ''TRUE''
          then Ret False w1
          else if \<not> emailRegex_test (toString h (config ''emailNotificacion''))
          then Ret False w1
          else seq (sendEmail h (config ''emailNotificacion'') subject body None)
                 (\<lambda>_. Ret True) w1))
       (\<lambda>error. Ret False)
       (record_call (SendNotification subject body) w)"

definition sendHtmlNotification :: "host \<Rightarrow> string \<Rightarrow> string \<Rightarrow> world \<Rightarrow> bool outcome" where
  "sendHtmlNotification h subject htmlBody w =
     try_catch
       (seq (getConfig h) (\<lambda>config w1.
          if config ''notificarAdmins'' \<noteq> Bool True \<and> config ''notificarAdmins'' \<noteq> Str ''TRUE''
          then Ret False w1
          else seq (sendEmail h (config ''emailNotificacion'') subject [] (Some htmlBody))
                 (\<lambda>_. Ret True) w1))
       (\<lambda>error. Ret False)
       (record_call (SendHtmlNotification subject htmlBody) w)"

text \<open>\<^verbatim>\<open>calendar.createEvent\<close>, with the options the script passes.\<close>

definition createEvent :: "host \<Rightarrow> string \<Rightarrow> int \<Rightarrow> int \<Rightarrow> string \<Rightarrow> world \<Rightarrow> unit outcome" where
  "createEvent h title startTime endTime description w =
     (case calendar_createEvent h of
        Some msg \<Rightarrow> Throw msg w
      | None \<Rightarrow>
          Ret () (w\<lparr>agenda := agenda w @
            [\<lparr>c_title = title, c_start = startTime, c_end = endTime,
              c_description = description, c_sendInvites = False\<rparr>]\<rparr>))"

definition createCalendarEvent :: "host \<Rightarrow> string \<Rightarrow> string \<Rightarrow> int \<Rightarrow> int \<Rightarrow> world \<Rightarrow> bool outcome" where
  "createCalendarEvent h title description startTime endTime w =
     try_catch
       (seq (getConfig h) (\<lambda>config w1.
          if config ''crearEventoCalendar'' \<noteq> Bool True \<and> config ''crearEventoCalendar'' \<noteq> Str ''TRUE''
          then Ret False w1
          else (case CalendarApp_getCalendarById h (config ''calendarioId'') of
                  CalendarThrows msg \<Rightarrow> Throw msg w1
                | CalendarNull \<Rightarrow> Ret False w1
                | CalendarFound \<Rightarrow>
                    seq (createEvent h title startTime endTime description) (\<lambda>_. Ret True) w1)))
       (\<lambda>error. Ret False)
       (record_call (CreateCalendarEvent title description startTime endTime) w)"

section \<open>Notifications.gs: the processors\<close>

definition processInactiveUser :: "host \<Rightarrow> user \<Rightarrow> world \<Rightarrow> unit outcome" where
  "processInactiveUser h u =
     seq (logEvent h
            \<lparr> ev_type = Str ''USUARIO_INACTIVO'',
              ev_user = name u,
              ev_details = Str ''Usuario desactivado'',
              ev_status = Str ''ALERTA'',
              ev_action = Str ''Email enviado'' \<rparr>) (\<lambda>_.
     seq (sendNotification h ''Usuario inactivo detectado''
            (''El usuario '' @ toString h (name u) @ '' ('' @ toString h (email u) @
             '') del grupo '' @ toString h (group u) @ '' fue marcado como inactivo.'' @ [CHR 0x0A] @
             [CHR 0x0A] @ ''Fecha: '' @ toLocaleString h (now h) @ [CHR 0x0A] @ [CHR 0x0A] @
             ''Sistema de Gesti'' @ [CHR 0xF3] @ ''n Workspace - Turing IA'')) (\<lambda>_.
     Ret ()))"

definition roleChange_subject :: string where
  "roleChange_subject = ''Cambio Cr'' @ [CHR 0xED] @ ''tico: Nuevo Administrador''"

definition roleChange_body :: "host \<Rightarrow> user \<Rightarrow> string" where
  "roleChange_body h u =
     ''ATENCI'' @ [CHR 0xD3] @ ''N: '' @ toString h (name u) @
     '' fue promovido a Admin.'' @ [CHR 0x0A] @ [CHR 0x0A] @ ''Email: '' @
     toString h (email u) @ [CHR 0x0A] @ ''Grupo: '' @ toString h (group u) @ [CHR 0x0A] @
     ''Fecha: '' @ toLocaleString h (now h) @ [CHR 0x0A] @ [CHR 0x0A] @
     ''Verifica que este cambio est'' @ [CHR 0xE9] @ '' autorizado.'' @ [CHR 0x0A] @
     [CHR 0x0A] @ ''Sistema de Gesti'' @ [CHR 0xF3] @ ''n Workspace - Turing IA''"

definition roleChange_event :: "host \<Rightarrow> user \<Rightarrow> log_event" where
  "roleChange_event h u =
     \<lparr> ev_type = Str ''ROL_MODIFICADO'',
       ev_user = name u,
       ev_details = Str (''Nuevo rol: '' @ toString h (role u)),
       ev_status = (if role u = Str ''Admin'' then Str ''WARNING'' else Str ''OK''),
       ev_action = (if role u = Str ''Admin'' then Str ''Email enviado'' else Str ''Solo registro'') \<rparr>"

definition notifyRoleChange :: "host \<Rightarrow> user \<Rightarrow> world \<Rightarrow> unit outcome" where
  "notifyRoleChange h u =
     seq (logEvent h (roleChange_event h u)) (\<lambda>_.
     if role u = Str ''Admin''
     then seq (sendNotification h roleChange_subject (roleChange_body h u)) (\<lambda>_. Ret ())
     else Ret ())"

text \<open>\<^verbatim>\<open>sheet.getRange(r, c).setValue(v)\<close> on the sheet Usuarios, rows and columns counted
  from 1. Without the sheet the method call on \<^verbatim>\<open>null\<close> throws; a range that starts
  before row 1 or column 1 throws. A cell outside the stored rows comes into being, and
  the cell holds the value as the script wrote it.\<close>

definition setCell :: "sheet \<Rightarrow> nat \<Rightarrow> nat \<Rightarrow> jsval \<Rightarrow> sheet" where
  "setCell data r c v =
     (let rows = data @ replicate (r - length data) [];
          old = rows ! (r - 1);
          new = (old @ replicate (c - length old) (Str [])) [c - 1 := v]
      in rows [r - 1 := new])"

definition setValue :: "nat \<Rightarrow> nat \<Rightarrow> jsval \<Rightarrow> world \<Rightarrow> unit outcome" where
  "setValue r c v w =
     (case usuarios w of
        None \<Rightarrow> Throw ''Cannot read properties of null'' w
      | Some data \<Rightarrow>
          if r < 1 \<or> c < 1 then Throw ''The starting row or column of the range is too small.'' w
          else Ret () (record_call (SetValue r c v) (w\<lparr>usuarios := Some (setCell data r c v)\<rparr>)))"

text \<open>\<^verbatim>\<open>setDate(getDate() + 1)\<close> and \<^verbatim>\<open>setHours(hour, 0, 0, 0)\<close> on the current date, in
  a time zone with a fixed offset from UTC: the local day after today's, at the hour.\<close>

definition tomorrowAt :: "host \<Rightarrow> int \<Rightarrow> int" where
  "tomorrowAt h hour =
     ((now h + tzOffset h) div 86400000 + 1) * 86400000 + hour * 3600000 - tzOffset h"

definition newUser_event :: "host \<Rightarrow> user \<Rightarrow> log_event" where
  "newUser_event h u =
     \<lparr> ev_type = Str ''USUARIO_AGREGADO'',
       ev_user = name u,
       ev_details = Str (''Rol: '' @ toString h (role u) @ '', Grupo: '' @ toString h (group u)),
       ev_status = Str ''OK'',
       ev_action = Str ''Email y evento creados'' \<rparr>"

definition newUser_htmlBody :: "host \<Rightarrow> user \<Rightarrow> string" where
  \<open>newUser_htmlBody h u =
     [CHR 0x0A] @ ''    <h2>Nuevo Usuario Registrado</h2>'' @ [CHR 0x0A] @
     ''    <table border="1" cellpadding="8" style="border-collapse: collapse;">'' @ [CHR 0x0A] @
     ''      <tr><td><strong>Nombre:</strong></td><td>'' @ toString h (name u) @
     ''</td></tr>'' @ [CHR 0x0A] @ ''      <tr><td><strong>Email:</strong></td><td>'' @
     toString h (email u) @ ''</td></tr>'' @ [CHR 0x0A] @
     ''      <tr><td><strong>Rol:</strong></td><td>'' @ toString h (role u) @
     ''</td></tr>'' @ [CHR 0x0A] @ ''      <tr><td><strong>Grupo:</strong></td><td>'' @
     toString h (group u) @ ''</td></tr>'' @ [CHR 0x0A] @
     ''      <tr><td><strong>Fecha:</strong></td><td>'' @ toLocaleString h (now h) @
     ''</td></tr>'' @ [CHR 0x0A] @ ''    </table>'' @ [CHR 0x0A] @
     ''    <p style="color: #666; margin-top: 20px;">Sistema de Gesti'' @ [CHR 0xF3] @
     ''n Workspace - Turing IA</p>'' @ [CHR 0x0A] @
     ''  ''\<close>

definition newUser_description :: "host \<Rightarrow> user \<Rightarrow> string" where
  "newUser_description h u =
     ''Sesi'' @ [CHR 0xF3] @ ''n de Onboarding'' @ [CHR 0x0A] @ [CHR 0x0A] @ ''Usuario: '' @
     toString h (name u) @ [CHR 0x0A] @ ''Email: '' @ toString h (email u) @ [CHR 0x0A] @
     ''Rol: '' @ toString h (role u) @ [CHR 0x0A] @ ''Grupo: '' @ toString h (group u) @
     [CHR 0x0A] @ [CHR 0x0A] @ ''Agenda:'' @ [CHR 0x0A] @
     ''1. Bienvenida al equipo'' @ [CHR 0x0A] @
     ''2. Explicaci'' @ [CHR 0xF3] @ ''n de roles y permisos'' @ [CHR 0x0A] @
     ''3. Tour por herramientas'' @ [CHR 0x0A] @
     ''4. Asignaci'' @ [CHR 0xF3] @ ''n de tareas'' @ [CHR 0x0A] @ [CHR 0x0A] @
     ''Sistema de Gesti'' @ [CHR 0xF3] @ ''n Workspace - Turing IA''"

definition processNewUser :: "host \<Rightarrow> user \<Rightarrow> nat \<Rightarrow> world \<Rightarrow> unit outcome" where
  "processNewUser h u r =
     seq (setValue r 6 (Date (now h))) (\<lambda>_.
     seq (setValue r 7 (Date (now h))) (\<lambda>_.
     seq (logEvent h (newUser_event h u)) (\<lambda>_.
     seq (sendHtmlNotification h ''Nuevo usuario agregado'' (newUser_htmlBody h u)) (\<lambda>_.
     seq (createCalendarEvent h (''Onboarding: '' @ toString h (name u)) (newUser_description h u)
            (tomorrowAt h 10) (tomorrowAt h 11)) (\<lambda>_.
     Ret ())))))"

definition tabla_row :: "host \<Rightarrow> inactivo \<Rightarrow> string" where
  \<open>tabla_row h e =
     ''<tr>'' @ [CHR 0x0A] @ ''      <td style="padding: 8px; border: 1px solid #ddd;">'' @
     toString h (i_name e) @ ''</td>'' @ [CHR 0x0A] @
     ''      <td style="padding: 8px; border: 1px solid #ddd;">'' @ toString h (i_group e) @
     ''</td>'' @ [CHR 0x0A] @ ''      <td style="padding: 8px; border: 1px solid #ddd;">'' @
     show_nat (i_days e) @ '' d'' @ [CHR 0xED] @ ''as</td>'' @ [CHR 0x0A] @ ''    </tr>''\<close>

definition tabla :: "host \<Rightarrow> inactivo list \<Rightarrow> string" where
  "tabla h usuariosInactivos = concat (map (tabla_row h) usuariosInactivos)"

definition reporte_subject :: "host \<Rightarrow> string" where
  "reporte_subject h = ''Reporte Diario - '' @ toLocaleDateString h (now h)"

definition reporte_htmlBody :: "host \<Rightarrow> inactivo list \<Rightarrow> string" where
  \<open>reporte_htmlBody h usuariosInactivos =
     [CHR 0x0A] @ ''    <h2>Reporte Diario - Usuarios Inactivos</h2>'' @ [CHR 0x0A] @
     ''    <p>Se detectaron <strong>'' @ show_nat (length usuariosInactivos) @
     ''</strong> usuarios sin actividad:</p>'' @ [CHR 0x0A] @
     ''    <table border="1" cellpadding="8" style="border-collapse: collapse; width: 100%;">'' @
     [CHR 0x0A] @
     ''      <thead>'' @ [CHR 0x0A] @
     ''        <tr style="background-color: #4285f4; color: white;">'' @ [CHR 0x0A] @
     ''          <th>Usuario</th><th>Grupo</th><th>D'' @ [CHR 0xED] @ ''as Inactivo</th>'' @
     [CHR 0x0A] @
     ''        </tr>'' @ [CHR 0x0A] @ ''      </thead>'' @ [CHR 0x0A] @ ''      <tbody>'' @
     tabla h usuariosInactivos @ ''</tbody>'' @ [CHR 0x0A] @ ''    </table>'' @ [CHR 0x0A] @
     ''    <p style="margin-top: 20px; color: #666;">'' @ [CHR 0x0A] @ ''      Fecha: '' @
     toLocaleDateString h (now h) @ ''<br>'' @ [CHR 0x0A] @
     ''      Sistema de Gesti'' @ [CHR 0xF3] @ ''n Workspace - Turing IA'' @ [CHR 0x0A] @
     ''    </p>'' @ [CHR 0x0A] @ ''  ''\<close>

definition enviarReporteInactivos :: "host \<Rightarrow> inactivo list \<Rightarrow> world \<Rightarrow> unit outcome" where
  "enviarReporteInactivos h usuariosInactivos =
     seq (sendHtmlNotification h (reporte_subject h) (reporte_htmlBody h usuariosInactivos))
       (\<lambda>_. Ret ())"

section \<open>Triggers.gs: the edit trigger\<close>

text \<open>The functions of the first half of \<^verbatim>\<open>src/unnamed/part_002\<close>.\<close>

text \<open>The edit event: the sheet of the edited range, its row and its column.\<close>

record edit =
  e_sheet :: string
  e_row :: nat
  e_col :: nat

text \<open>\<^verbatim>\<open>sheet.getRange(row, 1, 1, 7).getValues()[0]\<close>: the seven cells of the row.\<close>

definition getRange_values :: "sheet \<Rightarrow> nat \<Rightarrow> jsval list" where
  "getRange_values data r = map (cellAt (rowAt data (r - 1))) [0..<7]"

text \<open>The object \<^verbatim>\<open>user\<close> that \<^verbatim>\<open>handleUserEdit\<close> builds from the row.\<close>

definition normalizeField :: "host \<Rightarrow> jsval \<Rightarrow> jsval" where
  "normalizeField h x = (if truthy x then Str (trim (toString h x)) else Str [])"

definition normalizeUser :: "host \<Rightarrow> jsval list \<Rightarrow> user" where
  "normalizeUser h userData =
     \<lparr> name = normalizeField h (userData ! 0),
       email = normalizeField h (userData ! 1),
       role = normalizeField h (userData ! 2),
       group = normalizeField h (userData ! 3),
       active = (userData ! 4 = Bool True \<or> userData ! 4 = Str ''TRUE'' \<or> userData ! 4 = Str ''true''),
       dateRegistered = or_else (userData ! 5) Null,
       lastAccess = or_else (userData ! 6) Null \<rparr>"

definition filaCompleta :: "user \<Rightarrow> bool" where
  "filaCompleta u = (truthy (name u) \<and> truthy (email u) \<and> truthy (role u) \<and> truthy (group u))"

definition esNuevo :: "user \<Rightarrow> bool" where
  "esNuevo u = (\<not> truthy (dateRegistered u) \<or> dateRegistered u = Str [])"

text \<open>The three detections of \<^verbatim>\<open>handleUserEdit\<close>, once the row is read. The first returns
  after its call; the second and the third are two separate \<^verbatim>\<open>if\<close> statements.\<close>

definition detect :: "host \<Rightarrow> nat \<Rightarrow> nat \<Rightarrow> user \<Rightarrow> world \<Rightarrow> unit outcome" where
  "detect h r c u =
     (if c \<ge> 1 \<and> c \<le> 5 \<and> filaCompleta u \<and> esNuevo u
      then processNewUser h u r
      else seq (if c = 5 \<and> active u = False then processInactiveUser h u else Ret ()) (\<lambda>_.
           if c = 3 \<and> truthy (dateRegistered u) then notifyRoleChange h u else Ret ()))"

text \<open>The event comes from the sheet Usuarios, which the handler reads through the event;
  a world without that sheet cannot raise it, and the model throws there as a method
  call on \<^verbatim>\<open>null\<close> does.\<close>

definition handleUserEdit :: "host \<Rightarrow> edit \<Rightarrow> world \<Rightarrow> unit outcome" where
  "handleUserEdit h e w =
     (if e_row e = 1 then Ret () w
      else case usuarios w of
             None \<Rightarrow> Throw ''Cannot read properties of null'' w
           | Some data \<Rightarrow>
               if e_row e < 1 then Throw ''The starting row or column of the range is too small.'' w
               else detect h (e_row e) (e_col e) (normalizeUser h (getRange_values data (e_row e))) w)"

definition onEdit :: "host \<Rightarrow> edit \<Rightarrow> world \<Rightarrow> unit outcome" where
  "onEdit h e =
     try_catch
       (\<lambda>w. if e_sheet e = ''Usuarios'' then handleUserEdit h e w else Ret () w)
       (\<lambda>error. logEvent h
          \<lparr> ev_type = Str ''ERROR'',
            ev_user = Str ''Sistema'',
            ev_details = Str (''Error en trigger: '' @ error),
            ev_status = Str ''ERROR'',
            ev_action = Undefined \<rparr>)"

text \<open>The decision of \<^verbatim>\<open>handleUserEdit\<close> on its own: which processor the handler calls for
  an edit at a row and a column, given the normalized row. Lemma \<open>handleUserEdit_classify\<close>
  below shows that the handler does what \<open>dispatch\<close> does with the result.\<close>

datatype lifecycle = NewUser user nat | Deactivation user | RoleChange user

definition classify :: "nat \<Rightarrow> nat \<Rightarrow> user \<Rightarrow> lifecycle list" where
  "classify r c u =
     (if r = 1 then []
      else if c \<ge> 1 \<and> c \<le> 5 \<and> filaCompleta u \<and> esNuevo u then [NewUser u r]
      else (if c = 5 \<and> active u = False then [Deactivation u] else []) @
           (if c = 3 \<and> truthy (dateRegistered u) then [RoleChange u] else []))"

fun dispatch :: "host \<Rightarrow> lifecycle list \<Rightarrow> world \<Rightarrow> unit outcome" where
  "dispatch h [] w = Ret () w"
| "dispatch h (NewUser u r # evs) w = seq (processNewUser h u r) (\<lambda>_. dispatch h evs) w"
| "dispatch h (Deactivation u # evs) w = seq (processInactiveUser h u) (\<lambda>_. dispatch h evs) w"
| "dispatch h (RoleChange u # evs) w = seq (notifyRoleChange h u) (\<lambda>_. dispatch h evs) w"

section \<open>Triggers.gs: the daily check\<close>

text \<open>The search loop \<^verbatim>\<open>for (let i = 1; i < data.length; i++) if (data[i][0] === user.name)\<close>:
  the index of the first row below the header whose name cell is the name, if any.\<close>

primrec firstMatch :: "jsval \<Rightarrow> jsval list list \<Rightarrow> nat \<Rightarrow> nat option" where
  "firstMatch nm [] i = None"
| "firstMatch nm (r # rs) i =
     (if strict_eq (cellAt r 0) nm then Some i else firstMatch nm rs (Suc i))"

definition findRow :: "sheet \<Rightarrow> jsval \<Rightarrow> nat option" where
  "findRow data nm = firstMatch nm (drop 1 data) 1"

definition inactivo_event :: "user \<Rightarrow> nat \<Rightarrow> log_event" where
  "inactivo_event u dias =
     \<lparr> ev_type = Str ''USUARIO_INACTIVO'',
       ev_user = name u,
       ev_details = Str (show_nat dias @ '' d'' @ [CHR 0xED] @ ''as sin actividad''),
       ev_status = Str ''ALERTA'',
       ev_action = Str (''Desactivado autom'' @ [CHR 0xE1] @ ''ticamente'') \<rparr>"

text \<open>The body of the \<^verbatim>\<open>forEach\<close> of \<^verbatim>\<open>verificarUsuariosInactivos\<close>, with the list
  \<^verbatim>\<open>usuariosInactivos\<close> it grows.\<close>

definition verificarUsuario :: "host \<Rightarrow> user \<Rightarrow> inactivo list \<Rightarrow> world \<Rightarrow> inactivo list outcome" where
  "verificarUsuario h u usuariosInactivos w =
     (if \<not> active u then Ret usuariosInactivos w
      else case getDaysSinceLastAccess h (lastAccess u) of
        None \<Rightarrow> Ret usuariosInactivos w
      | Some dias \<Rightarrow>
          if dias > 7 then
            (case usuarios w of
               None \<Rightarrow> Throw ''Cannot read properties of null'' w
             | Some data \<Rightarrow>
                 seq (case findRow data (name u) of
                        Some i \<Rightarrow> setValue (i + 1) 5 (Str ''FALSE'')
                      | None \<Rightarrow> Ret ()) (\<lambda>_.
                 seq (logEvent h (inactivo_event u dias)) (\<lambda>_.
                 Ret (usuariosInactivos @
                        [\<lparr> i_name = name u, i_group = group u, i_days = dias \<rparr>]))) w)
          else Ret usuariosInactivos w)"

fun forEach_user :: "host \<Rightarrow> user list \<Rightarrow> inactivo list \<Rightarrow> world \<Rightarrow> inactivo list outcome" where
  "forEach_user h [] usuariosInactivos w = Ret usuariosInactivos w"
| "forEach_user h (u # us) usuariosInactivos w =
     (case verificarUsuario h u usuariosInactivos w of
        Ret usuariosInactivos' w' \<Rightarrow> forEach_user h us usuariosInactivos' w'
      | Throw e w' \<Rightarrow> Throw e w')"

definition verificarUsuariosInactivos :: "host \<Rightarrow> world \<Rightarrow> unit outcome" where
  "verificarUsuariosInactivos h =
     seq getUsers (\<lambda>users.
     seq (forEach_user h users []) (\<lambda>usuariosInactivos.
     if length usuariosInactivos > 0 then enviarReporteInactivos h usuariosInactivos
     else Ret ()))"

section \<open>Auxiliary notions for the statements\<close>

text \<open>The configuration object, when \<^verbatim>\<open>getConfig\<close> returns one.\<close>

definition config_of :: "host \<Rightarrow> world \<Rightarrow> (string \<Rightarrow> jsval) option" where
  "config_of h w = (case getConfig h w of Ret config w' \<Rightarrow> Some config | Throw e w' \<Rightarrow> None)"

text \<open>An enable flag is true-like when it is the boolean \<^verbatim>\<open>true\<close> or the string \<^verbatim>\<open>'TRUE'\<close>.\<close>

definition true_like :: "jsval \<Rightarrow> bool" where
  "true_like v = (v = Bool True \<or> v = Str ''TRUE'')"

text \<open>When each gateway gets its external call through: the flag is true-like, the
  validation passes, and the transport does not throw.\<close>

definition plain_delivers :: "host \<Rightarrow> world \<Rightarrow> bool" where
  "plain_delivers h w =
     (case config_of h w of
        None \<Rightarrow> False
      | Some config \<Rightarrow>
          true_like (config ''notificarAdmins'') \<and>
          emailRegex_test (toString h (config ''emailNotificacion'')) \<and>
          GmailApp_sendEmail h (config ''emailNotificacion'') = None)"

definition rich_delivers :: "host \<Rightarrow> world \<Rightarrow> bool" where
  "rich_delivers h w =
     (case config_of h w of
        None \<Rightarrow> False
      | Some config \<Rightarrow>
          true_like (config ''notificarAdmins'') \<and>
          GmailApp_sendEmail h (config ''emailNotificacion'') = None)"

definition schedule_books :: "host \<Rightarrow> world \<Rightarrow> bool" where
  "schedule_books h w =
     (case config_of h w of
        None \<Rightarrow> False
      | Some config \<Rightarrow>
          true_like (config ''crearEventoCalendar'') \<and>
          CalendarApp_getCalendarById h (config ''calendarioId'') = CalendarFound \<and>
          calendar_createEvent h = None)"

text \<open>The audit sheet takes a row: it exists and the append does not throw.\<close>

definition audit_writes :: "host \<Rightarrow> world \<Rightarrow> bool" where
  "audit_writes h w = (registroDeEventos w \<noteq> None \<and> sheet_appendRow h = None)"

text \<open>The world an invocation leaves, returned or thrown.\<close>

fun after :: "'a outcome \<Rightarrow> world" where
  "after (Ret a w) = w"
| "after (Throw e w) = w"

fun result :: "'a outcome \<Rightarrow> 'a option" where
  "result (Ret a w) = Some a"
| "result (Throw e w) = None"

fun returns :: "'a outcome \<Rightarrow> bool" where
  "returns (Ret a w) = True"
| "returns (Throw e w) = False"

fun is_SendNotification :: "call \<Rightarrow> bool" where
  "is_SendNotification (SendNotification subject body) = True"
| "is_SendNotification c = False"

fun is_NewUser :: "lifecycle \<Rightarrow> bool" where
  "is_NewUser (NewUser u r) = True"
| "is_NewUser ev = False"

text \<open>The cell of the sheet Usuarios at a row and a column, both counted from 1.\<close>

definition usuarios_cell :: "world \<Rightarrow> nat \<Rightarrow> nat \<Rightarrow> jsval" where
  "usuarios_cell w r c = (case usuarios w of None \<Rightarrow> Str [] | Some data \<Rightarrow> cellAt (rowAt data (r - 1)) (c - 1))"

text \<open>Several runs of the daily check, one after the other, each with its own host.\<close>

definition sweeps :: "host list \<Rightarrow> world \<Rightarrow> world" where
  "sweeps hs w = fold (\<lambda>h w'. after (verificarUsuariosInactivos h w')) hs w"

text \<open>For the daily check: the day count of a user; the user is due when it is active and
  the count is a number above 7; what one pass of the loop body does for a due user, to
  the sheet and as calls; and the entry it adds to the report.\<close>

definition dias_de :: "host \<Rightarrow> user \<Rightarrow> nat" where
  "dias_de h u = (case getDaysSinceLastAccess h (lastAccess u) of None \<Rightarrow> 0 | Some d \<Rightarrow> d)"

definition vencido :: "host \<Rightarrow> user \<Rightarrow> bool" where
  "vencido h u = (active u \<and> dias_de h u > 7)"

definition desactivar :: "sheet \<Rightarrow> jsval \<Rightarrow> sheet" where
  "desactivar data nm =
     (case findRow data nm of Some i \<Rightarrow> setCell data (i + 1) 5 (Str ''FALSE'') | None \<Rightarrow> data)"

definition llamadas :: "sheet \<Rightarrow> host \<Rightarrow> user \<Rightarrow> call list" where
  "llamadas data h u =
     (case findRow data (name u) of Some i \<Rightarrow> [SetValue (i + 1) 5 (Str ''FALSE'')] | None \<Rightarrow> []) @
     [LogEvent (inactivo_event u (dias_de h u))]"

definition entrada :: "host \<Rightarrow> user \<Rightarrow> inactivo" where
  "entrada h u = \<lparr> i_name = name u, i_group = group u, i_days = dias_de h u \<rparr>"

text \<open>The users \<^verbatim>\<open>getUsers\<close> reads from a sheet.\<close>

definition users_of :: "sheet \<Rightarrow> user list" where
  "users_of data = map getUsers_entry (filter (\<lambda>r. truthy (cellAt r 0)) (drop 1 data))"

section \<open>A registry to run the scripts on\<close>

text \<open>A host on day 1000 after the epoch at noon UTC, six hours west of Greenwich, with
  every external service answering; a configuration with both features switched on; and
  a registry of three users last seen 3, 8 and 15 days ago, the first an administrator.\<close>

definition ejemplo_host :: host where
  "ejemplo_host =
     \<lparr> now = 86443200000,
       tzOffset = - 21600000,
       dateToString = (\<lambda>t. ''Date '' @ show_int t),
       toLocaleString = (\<lambda>t. ''fecha '' @ show_int t),
       toLocaleDateString = (\<lambda>t. ''dia '' @ show_int (t div 86400000)),
       Date_parse = (\<lambda>s. None),
       GmailApp_sendEmail = (\<lambda>recipient. None),
       CalendarApp_getCalendarById = (\<lambda>c. if c = Str ''primary'' then CalendarFound else CalendarNull),
       calendar_createEvent = None,
       sheet_appendRow = None \<rparr>"

definition ejemplo_config :: sheet where
  "ejemplo_config =
     [[Str ''Parametro'', Str ''Valor''],
      [Str ''emailNotificacion'', Str ''admin@empresa.com''],
      [Str ''calendarioId'', Str ''primary''],
      [Str ''notificarAdmins'', Str ''TRUE''],
      [Str ''crearEventoCalendar'', Bool True]]"

definition encabezados :: "jsval list" where
  "encabezados =
     [Str ''Nombre'', Str ''Email'', Str ''Rol'', Str ''Grupo'', Str ''Activo'',
      Str ''Fecha Registro'', Str ''Ultimo Acceso'']"

definition fila_admin :: "jsval list" where
  "fila_admin =
     [Str ''Ana'', Str ''ana@empresa.com'', Str ''Admin'', Str ''IT'', Bool True,
      Date 86400000000, Date 86184000000]"

definition fila_luis :: "jsval list" where
  "fila_luis =
     [Str ''Luis'', Str ''luis@empresa.com'', Str ''Viewer'', Str ''RH'', Str ''TRUE'',
      Date 86400000000, Date 85752000000]"

definition fila_eva :: "jsval list" where
  "fila_eva =
     [Str ''Eva'', Str ''eva@empresa.com'', Str ''Editor'', Str ''Finanzas'', Bool True,
      Date 86400000000, Date 85147200000]"

definition ejemplo_world :: world where
  "ejemplo_world =
     \<lparr> usuarios = Some [encabezados, fila_admin, fila_luis, fila_eva],
       configuracion = Some ejemplo_config,
       registroDeEventos = Some [[Str ''Fecha'', Str ''Tipo'', Str ''Usuario'', Str ''Detalles'',
                                  Str ''Estado'', Str ''Accion'']],
       outbox = [],
       agenda = [],
       calls = [] \<rparr>"

text \<open>A row that has just been filled in, not yet stamped, and the registry with it in
  row 5.\<close>

definition fila_nueva :: "jsval list" where
  "fila_nueva =
     [Str '' Pedro '', Str ''pedro@empresa.com'', Str ''Viewer'', Str ''RH'', Str ''TRUE'',
      Str [], Str []]"

definition world_con_fila_nueva :: world where
  "world_con_fila_nueva =
     ejemplo_world\<lparr>usuarios := map_option (\<lambda>data. data @ [fila_nueva]) (usuarios ejemplo_world)\<rparr>"


text \<open>A row where only the name is typed and the Active box is unticked, and the registry
  with it in row 5; and a filled row whose Active cell reads True in mixed case.\<close>

definition fila_incompleta :: "jsval list" where
  "fila_incompleta = [Str ''Carla'', Str [], Str [], Str [], Bool False, Str [], Str []]"

definition world_con_fila_incompleta :: world where
  "world_con_fila_incompleta =
     ejemplo_world\<lparr>usuarios := map_option (\<lambda>data. data @ [fila_incompleta]) (usuarios ejemplo_world)\<rparr>"

definition fila_True :: "jsval list" where
  "fila_True =
     [Str ''Pedro'', Str ''pedro@empresa.com'', Str ''Viewer'', Str ''RH'', Str ''True'',
      Str [], Str []]"

text \<open>The same host with a mail service that throws.\<close>

definition host_sin_gmail :: host where
  "host_sin_gmail =
     ejemplo_host\<lparr>GmailApp_sendEmail := (\<lambda>recipient. Some ''Service invoked too many times'')\<rparr>"

text \<open>Registries for the daily check: one whose only user has an empty last-access cell;
  one whose only user was seen three days ago; one where two rows carry the same name,
  both last seen 15 days ago.\<close>

definition fila_sin_acceso :: "jsval list" where
  "fila_sin_acceso =
     [Str ''Sofia'', Str ''sofia@empresa.com'', Str ''Viewer'', Str ''RH'', Bool True,
      Date 86400000000, Str []]"

definition world_sin_acceso :: world where
  "world_sin_acceso = ejemplo_world\<lparr>usuarios := Some [encabezados, fila_sin_acceso]\<rparr>"

definition world_reciente :: world where
  "world_reciente = ejemplo_world\<lparr>usuarios := Some [encabezados, fila_admin]\<rparr>"

definition world_duplicados :: world where
  "world_duplicados =
     ejemplo_world\<lparr>usuarios := Some
       [encabezados,
        [Str ''Ana'', Str ''ana.lopez@empresa.com'', Str ''Editor'', Str ''IT'', Bool True,
         Date 86400000000, Date 85147200000],
        [Str ''Ana'', Str ''ana.ruiz@empresa.com'', Str ''Viewer'', Str ''RH'', Bool True,
         Date 86400000000, Date 85147200000]]\<rparr>"

text \<open>A registry of three active users last seen 3, 8 and 15 days ago, of which the first
  two carry the same name.\<close>

definition fila_ana8 :: "jsval list" where
  "fila_ana8 =
     [Str ''Ana'', Str ''ana.ruiz@empresa.com'', Str ''Viewer'', Str ''RH'', Bool True,
      Date 86400000000, Date 85752000000]"

definition world_homonimos :: world where
  "world_homonimos = ejemplo_world\<lparr>usuarios := Some [encabezados, fila_admin, fila_ana8, fila_eva]\<rparr>"

section \<open>Properties of the model\<close>

subsection \<open>What each call leaves behind\<close>

lemma seq_Ret: "m w = Ret a w' \<Longrightarrow> seq m f w = f a w'"
  by (simp add: seq_def)

lemma seq_Throw: "m w = Throw e w' \<Longrightarrow> seq m f w = Throw e w'"
  by (simp add: seq_def)

lemma logEvent_eq:
  "logEvent h ev w =
     Ret () (w\<lparr>calls := calls w @ [LogEvent ev],
              registroDeEventos :=
                (case registroDeEventos w of
                   None \<Rightarrow> None
                 | Some data \<Rightarrow> Some (if sheet_appendRow h = None then data @ [audit_row h ev] else data))\<rparr>)"
  by (cases "registroDeEventos w"; cases "sheet_appendRow h")
     (simp_all add: logEvent_def try_catch_def record_call_def appendRow_def)

lemma config_of_cases:
  "(config_of h w = None \<and> (\<exists>e. getConfig h w = Throw e w)) \<or>
   (\<exists>config. config_of h w = Some config \<and> getConfig h w = Ret config w)"
  by (cases "configuracion w") (simp_all add: config_of_def getConfig_def)

lemma getConfig_record_call [simp]:
  "getConfig h (record_call c w) =
     (case getConfig h w of Ret config w' \<Rightarrow> Ret config (record_call c w) | Throw e w' \<Rightarrow> Throw e (record_call c w))"
  by (cases "configuracion w") (simp_all add: getConfig_def record_call_def)

lemma sendNotification_eq:
  "sendNotification h subject body w =
     Ret (plain_delivers h w)
       (w\<lparr>calls := calls w @ [SendNotification subject body],
          outbox := outbox w @
            (if plain_delivers h w
             then [\<lparr>m_recipient = the (config_of h w) ''emailNotificacion'', m_subject = subject,
                    m_body = body, m_htmlBody = None\<rparr>]
             else [])\<rparr>)"
proof (cases "configuracion w")
  case None
  then show ?thesis
    by (simp add: sendNotification_def try_catch_def seq_def getConfig_def record_call_def
        plain_delivers_def config_of_def)
next
  case (Some data)
  then show ?thesis
    by (cases "GmailApp_sendEmail h (fold (\<lambda>r config. config(toString h (cellAt r 0) := cellAt r 1))
                 (drop 1 data) (\<lambda>k. Undefined) ''emailNotificacion'')")
       (auto simp add: sendNotification_def try_catch_def seq_def getConfig_def record_call_def
        plain_delivers_def config_of_def true_like_def sendEmail_def)
qed

lemma sendHtmlNotification_eq:
  "sendHtmlNotification h subject htmlBody w =
     Ret (rich_delivers h w)
       (w\<lparr>calls := calls w @ [SendHtmlNotification subject htmlBody],
          outbox := outbox w @
            (if rich_delivers h w
             then [\<lparr>m_recipient = the (config_of h w) ''emailNotificacion'', m_subject = subject,
                    m_body = [], m_htmlBody = Some htmlBody\<rparr>]
             else [])\<rparr>)"
proof (cases "configuracion w")
  case None
  then show ?thesis
    by (simp add: sendHtmlNotification_def try_catch_def seq_def getConfig_def record_call_def
        rich_delivers_def config_of_def)
next
  case (Some data)
  then show ?thesis
    by (cases "GmailApp_sendEmail h (fold (\<lambda>r config. config(toString h (cellAt r 0) := cellAt r 1))
                 (drop 1 data) (\<lambda>k. Undefined) ''emailNotificacion'')")
       (auto simp add: sendHtmlNotification_def try_catch_def seq_def getConfig_def record_call_def
        rich_delivers_def config_of_def true_like_def sendEmail_def)
qed

lemma createCalendarEvent_eq:
  "createCalendarEvent h title description startTime endTime w =
     Ret (schedule_books h w)
       (w\<lparr>calls := calls w @ [CreateCalendarEvent title description startTime endTime],
          agenda := agenda w @
            (if schedule_books h w
             then [\<lparr>c_title = title, c_start = startTime, c_end = endTime,
                    c_description = description, c_sendInvites = False\<rparr>]
             else [])\<rparr>)"
proof (cases "configuracion w")
  case None
  then show ?thesis
    by (simp add: createCalendarEvent_def try_catch_def seq_def getConfig_def record_call_def
        schedule_books_def config_of_def)
next
  case (Some data)
  then show ?thesis
    by (cases "CalendarApp_getCalendarById h (fold (\<lambda>r config. config(toString h (cellAt r 0) := cellAt r 1))
                 (drop 1 data) (\<lambda>k. Undefined) ''calendarioId'')"; cases "calendar_createEvent h")
       (auto simp add: createCalendarEvent_def try_catch_def seq_def getConfig_def record_call_def
        schedule_books_def config_of_def true_like_def createEvent_def)
qed

lemma length_setCell: "r \<ge> 1 \<Longrightarrow> length (setCell data r c v) = max (length data) r"
  by (auto simp add: setCell_def Let_def)

lemma setCell_read:
  assumes "r \<ge> 1" "c \<ge> 1"
  shows "cellAt (rowAt (setCell data r c v) i) k =
           (if i = r - 1 \<and> k = c - 1 then v else cellAt (rowAt data i) k)"
proof -
  define rows where "rows = data @ replicate (r - length data) []"
  define old where "old = rows ! (r - 1)"
  define new where "new = (old @ replicate (c - length old) (Str [])) [c - 1 := v]"
  have sc: "setCell data r c v = rows [r - 1 := new]"
    by (simp add: setCell_def Let_def rows_def old_def new_def)
  have lr: "r - 1 < length rows" using assms by (simp add: rows_def)
  have rows_read: "cellAt (rowAt rows i) k = cellAt (rowAt data i) k" for i k
    by (auto simp add: rows_def rowAt_def cellAt_def nth_append)
  have new_read: "cellAt new k = (if k = c - 1 then v else cellAt old k)" for k
    using assms by (auto simp add: new_def cellAt_def nth_append nth_list_update)
  show ?thesis
  proof (cases "i = r - 1")
    case True
    then have "rowAt (setCell data r c v) i = new" using lr by (simp add: sc rowAt_def)
    moreover have "cellAt old k = cellAt (rowAt data i) k" for k
      using True lr rows_read[of i k] by (simp add: old_def rowAt_def)
    ultimately show ?thesis using True by (simp add: new_read)
  next
    case False
    then have "rowAt (setCell data r c v) i = rowAt rows i"
      by (auto simp add: sc rowAt_def)
    then show ?thesis using False by (simp add: rows_read)
  qed
qed

lemma setValue_eq:
  "usuarios w = Some data \<Longrightarrow> r \<ge> 1 \<Longrightarrow> c \<ge> 1 \<Longrightarrow>
   setValue r c v w =
     Ret () (w\<lparr>usuarios := Some (setCell data r c v), calls := calls w @ [SetValue r c v]\<rparr>)"
  by (simp add: setValue_def record_call_def)

lemma config_of_frame [simp]:
  "config_of h (usuarios_update f1 w) = config_of h w"
  "config_of h (registroDeEventos_update f2 w) = config_of h w"
  "config_of h (outbox_update f3 w) = config_of h w"
  "config_of h (agenda_update f4 w) = config_of h w"
  "config_of h (calls_update f5 w) = config_of h w"
  by (simp_all add: config_of_def getConfig_def split: option.splits)

lemma delivers_frame [simp]:
  "plain_delivers h (usuarios_update f1 w) = plain_delivers h w"
  "plain_delivers h (registroDeEventos_update f2 w) = plain_delivers h w"
  "plain_delivers h (outbox_update f3 w) = plain_delivers h w"
  "plain_delivers h (agenda_update f4 w) = plain_delivers h w"
  "plain_delivers h (calls_update f5 w) = plain_delivers h w"
  "rich_delivers h (usuarios_update f1 w) = rich_delivers h w"
  "rich_delivers h (registroDeEventos_update f2 w) = rich_delivers h w"
  "rich_delivers h (outbox_update f3 w) = rich_delivers h w"
  "rich_delivers h (agenda_update f4 w) = rich_delivers h w"
  "rich_delivers h (calls_update f5 w) = rich_delivers h w"
  "schedule_books h (usuarios_update f1 w) = schedule_books h w"
  "schedule_books h (registroDeEventos_update f2 w) = schedule_books h w"
  "schedule_books h (outbox_update f3 w) = schedule_books h w"
  "schedule_books h (agenda_update f4 w) = schedule_books h w"
  "schedule_books h (calls_update f5 w) = schedule_books h w"
  by (simp_all add: plain_delivers_def rich_delivers_def schedule_books_def)

lemma processInactiveUser_eq:
  "processInactiveUser h u w =
     seq (logEvent h \<lparr> ev_type = Str ''USUARIO_INACTIVO'', ev_user = name u,
              ev_details = Str ''Usuario desactivado'', ev_status = Str ''ALERTA'',
              ev_action = Str ''Email enviado'' \<rparr>) (\<lambda>_ w1.
       Ret () (after (sendNotification h ''Usuario inactivo detectado''
        (''El usuario '' @ toString h (name u) @ '' ('' @ toString h (email u) @
             '') del grupo '' @ toString h (group u) @ '' fue marcado como inactivo.'' @ [CHR 0x0A] @
             [CHR 0x0A] @ ''Fecha: '' @ toLocaleString h (now h) @ [CHR 0x0A] @ [CHR 0x0A] @
             ''Sistema de Gesti'' @ [CHR 0xF3] @ ''n Workspace - Turing IA'') w1))) w"
  by (simp add: processInactiveUser_def seq_def logEvent_eq sendNotification_eq)

lemma processInactiveUser_returns: "returns (processInactiveUser h u w)"
  by (simp add: processInactiveUser_def seq_def logEvent_eq sendNotification_eq)

lemma notifyRoleChange_eq:
  "notifyRoleChange h u w =
     Ret () (w\<lparr>calls := calls w @ [LogEvent (roleChange_event h u)] @
                  (if role u = Str ''Admin''
                   then [SendNotification roleChange_subject (roleChange_body h u)] else []),
              registroDeEventos :=
                (case registroDeEventos w of
                   None \<Rightarrow> None
                 | Some data \<Rightarrow>
                     Some (if sheet_appendRow h = None then data @ [audit_row h (roleChange_event h u)]
                           else data)),
              outbox := outbox w @
                (if role u = Str ''Admin'' \<and> plain_delivers h w
                 then [\<lparr>m_recipient = the (config_of h w) ''emailNotificacion'',
                        m_subject = roleChange_subject, m_body = roleChange_body h u,
                        m_htmlBody = None\<rparr>]
                 else [])\<rparr>)"
  by (simp add: notifyRoleChange_def seq_def logEvent_eq sendNotification_eq)

lemma processNewUser_eq:
  assumes "usuarios w = Some data" "r \<ge> 1"
  shows "processNewUser h u r w =
     Ret () (w\<lparr>usuarios := Some (setCell (setCell data r 6 (Date (now h))) r 7 (Date (now h))),
              calls := calls w @
                [SetValue r 6 (Date (now h)), SetValue r 7 (Date (now h)),
                 LogEvent (newUser_event h u),
                 SendHtmlNotification ''Nuevo usuario agregado'' (newUser_htmlBody h u),
                 CreateCalendarEvent (''Onboarding: '' @ toString h (name u)) (newUser_description h u)
                   (tomorrowAt h 10) (tomorrowAt h 11)],
              registroDeEventos :=
                (case registroDeEventos w of
                   None \<Rightarrow> None
                 | Some log \<Rightarrow>
                     Some (if sheet_appendRow h = None then log @ [audit_row h (newUser_event h u)]
                           else log)),
              outbox := outbox w @
                (if rich_delivers h w
                 then [\<lparr>m_recipient = the (config_of h w) ''emailNotificacion'',
                        m_subject = ''Nuevo usuario agregado'', m_body = [],
                        m_htmlBody = Some (newUser_htmlBody h u)\<rparr>]
                 else []),
              agenda := agenda w @
                (if schedule_books h w
                 then [\<lparr>c_title = ''Onboarding: '' @ toString h (name u),
                        c_start = tomorrowAt h 10, c_end = tomorrowAt h 11,
                        c_description = newUser_description h u, c_sendInvites = False\<rparr>]
                 else [])\<rparr>)"
  using assms
  by (simp add: processNewUser_def seq_def setValue_eq logEvent_eq sendHtmlNotification_eq
      createCalendarEvent_eq)

lemma handleUserEdit_classify:
  "handleUserEdit h e w =
     (if e_row e = 1 then Ret () w
      else case usuarios w of
             None \<Rightarrow> Throw ''Cannot read properties of null'' w
           | Some data \<Rightarrow>
               if e_row e < 1 then Throw ''The starting row or column of the range is too small.'' w
               else dispatch h (classify (e_row e) (e_col e)
                      (normalizeUser h (getRange_values data (e_row e)))) w)"
  by (auto simp add: handleUserEdit_def detect_def classify_def seq_def
      split: option.splits outcome.splits)

subsection \<open>The edit classifier\<close>

lemma getRange_values_nth: "k < 7 \<Longrightarrow> getRange_values data r ! k = cellAt (rowAt data (r - 1)) k"
  by (simp add: getRange_values_def)

lemma normalizeField_Str: "normalizeField h (Str s) = Str (trim s)"
  by (simp add: normalizeField_def trim_def)

lemma truthy_normalizeField: "truthy (normalizeField h x) = (normalizeField h x \<noteq> Str [])"
  by (simp add: normalizeField_def)

lemma trim_prefix: "\<exists>zs. dropWhile isSpace s = trim s @ zs"
proof -
  have "rev (dropWhile isSpace s) =
          takeWhile isSpace (rev (dropWhile isSpace s)) @ dropWhile isSpace (rev (dropWhile isSpace s))"
    by simp
  then have "dropWhile isSpace s =
          rev (dropWhile isSpace (rev (dropWhile isSpace s))) @ rev (takeWhile isSpace (rev (dropWhile isSpace s)))"
    by (metis rev_append rev_rev_ident)
  then show ?thesis by (auto simp add: trim_def)
qed

lemma trim_ends: "trim s \<noteq> [] \<Longrightarrow> \<not> isSpace (hd (trim s)) \<and> \<not> isSpace (last (trim s))"
proof
  assume ne: "trim s \<noteq> []"
  obtain zs where z: "dropWhile isSpace s = trim s @ zs" using trim_prefix by blast
  then have "dropWhile isSpace s \<noteq> []" using ne by simp
  then have "\<not> isSpace (hd (dropWhile isSpace s))" by (rule hd_dropWhile)
  then show "\<not> isSpace (hd (trim s))" using z ne by simp
  have "dropWhile isSpace (rev (dropWhile isSpace s)) \<noteq> []" using ne by (simp add: trim_def)
  then have "\<not> isSpace (hd (dropWhile isSpace (rev (dropWhile isSpace s))))" by (rule hd_dropWhile)
  then show "\<not> isSpace (last (trim s))" using ne by (simp add: trim_def last_rev)
qed

lemma esNuevo_normalize: "esNuevo (normalizeUser h userData) = (\<not> truthy (userData ! 5))"
  by (cases "userData ! 5") (auto simp add: esNuevo_def normalizeUser_def or_else_def)

lemma dateRegistered_normalize:
  "(dateRegistered (normalizeUser h userData) = Null) = (\<not> truthy (userData ! 5))"
  by (cases "userData ! 5") (auto simp add: normalizeUser_def or_else_def)

lemma filaCompleta_normalize:
  "filaCompleta (normalizeUser h userData) =
     (name (normalizeUser h userData) \<noteq> Str [] \<and> email (normalizeUser h userData) \<noteq> Str [] \<and>
      role (normalizeUser h userData) \<noteq> Str [] \<and> group (normalizeUser h userData) \<noteq> Str [])"
  by (simp add: filaCompleta_def normalizeUser_def truthy_normalizeField)

lemma processNewUser_stamps:
  assumes "usuarios w = Some data" "r \<ge> 1"
  shows "usuarios_cell (after (processNewUser h u r w)) r 6 = Date (now h)"
    and "usuarios_cell (after (processNewUser h u r w)) r 7 = Date (now h)"
  using assms by (simp_all add: processNewUser_eq usuarios_cell_def setCell_read)

text \<open>
  Claim C1. For an edit at a row below the header and a column from 1 to 5, the handler
  decides for the new-user processor exactly when the normalized name, email, role and
  group are all non-empty and the normalized registration date is absent; it then calls
  nothing else. Once \<^verbatim>\<open>processNewUser\<close> has stamped the row (whoever the host, the user
  object or the world), no edit of columns 1 to 5 of that row is a new user again.
\<close>

theorem newUser_iff:
  assumes "r > 1" and "1 \<le> c" and "c \<le> 5"
  shows
    "((\<exists>ev \<in> set (classify r c (normalizeUser h userData)). is_NewUser ev) \<longleftrightarrow>
        name (normalizeUser h userData) \<noteq> Str [] \<and> email (normalizeUser h userData) \<noteq> Str [] \<and>
        role (normalizeUser h userData) \<noteq> Str [] \<and> group (normalizeUser h userData) \<noteq> Str [] \<and>
        dateRegistered (normalizeUser h userData) = Null) \<and>
     ((\<exists>ev \<in> set (classify r c (normalizeUser h userData)). is_NewUser ev) \<longrightarrow>
        classify r c (normalizeUser h userData) = [NewUser (normalizeUser h userData) r]) \<and>
     (usuarios w = Some data \<longrightarrow>
        (\<forall>ev \<in> set (classify r c (normalizeUser h
             (getRange_values (the (usuarios (after (processNewUser h0 u0 r w)))) r))).
           \<not> is_NewUser ev))"
proof (intro conjI impI)
  let ?u = "normalizeUser h userData"
  show iff: "(\<exists>ev \<in> set (classify r c ?u). is_NewUser ev) \<longleftrightarrow>
        name ?u \<noteq> Str [] \<and> email ?u \<noteq> Str [] \<and> role ?u \<noteq> Str [] \<and> group ?u \<noteq> Str [] \<and>
        dateRegistered ?u = Null"
    using assms
    by (auto simp add: classify_def filaCompleta_normalize esNuevo_normalize dateRegistered_normalize)
  show "classify r c ?u = [NewUser ?u r]" if "\<exists>ev \<in> set (classify r c ?u). is_NewUser ev"
    using that assms by (auto simp add: classify_def split: if_splits)
next
  assume w: "usuarios w = Some data"
  have r1: "r \<ge> 1" using assms by simp
  let ?w' = "after (processNewUser h0 u0 r w)"
  obtain data' where some: "usuarios ?w' = Some data'" using w r1 by (simp add: processNewUser_eq)
  have "usuarios_cell ?w' r 6 = Date (now h0)" using w r1 by (rule processNewUser_stamps)
  then have "cellAt (rowAt data' (r - 1)) 5 = Date (now h0)"
    by (simp add: usuarios_cell_def some)
  then have "getRange_values data' r ! 5 = Date (now h0)"
    by (simp add: getRange_values_nth)
  then have "\<not> esNuevo (normalizeUser h (getRange_values data' r))"
    by (simp add: esNuevo_normalize)
  then show "\<forall>ev \<in> set (classify r c (normalizeUser h (getRange_values (the (usuarios ?w')) r))). \<not> is_NewUser ev"
    by (auto simp add: classify_def some)
qed

theorem newUser_iff_witness:
  "(5::nat) > 1 \<and> (1::nat) \<le> 4 \<and> (4::nat) \<le> 5 \<and>
   usuarios world_con_fila_nueva \<noteq> None \<and>
   classify 5 4 (normalizeUser ejemplo_host fila_nueva) =
     [NewUser (normalizeUser ejemplo_host fila_nueva) 5] \<and>
   name (normalizeUser ejemplo_host fila_nueva) = Str ''Pedro'' \<and>
   filter is_NewUser (classify 5 4 (normalizeUser ejemplo_host
        (getRange_values (the (usuarios (after (processNewUser ejemplo_host
             (normalizeUser ejemplo_host fila_nueva) 5 world_con_fila_nueva)))) 5))) = []"
proof -
  have r: "(5::nat) > 1" and c1: "(1::nat) \<le> 4" and c2: "(4::nat) \<le> 5" by simp_all
  have w: "usuarios world_con_fila_nueva = Some (the (usuarios world_con_fila_nueva))"
    by (simp add: world_con_fila_nueva_def ejemplo_world_def)
  note t = newUser_iff [OF r c1 c2, where h = ejemplo_host and userData = fila_nueva
      and w = world_con_fila_nueva and ?h0.0 = ejemplo_host
      and ?u0.0 = "normalizeUser ejemplo_host fila_nueva"
      and data = "the (usuarios world_con_fila_nueva)"]
  have fields: "name (normalizeUser ejemplo_host fila_nueva) = Str ''Pedro''"
    "email (normalizeUser ejemplo_host fila_nueva) \<noteq> Str []"
    "role (normalizeUser ejemplo_host fila_nueva) \<noteq> Str []"
    "group (normalizeUser ejemplo_host fila_nueva) \<noteq> Str []"
    "dateRegistered (normalizeUser ejemplo_host fila_nueva) = Null"
    by (simp_all add: normalizeUser_def normalizeField_def fila_nueva_def trim_def isSpace_def
        or_else_def)
  from t fields have "classify 5 4 (normalizeUser ejemplo_host fila_nueva) =
     [NewUser (normalizeUser ejemplo_host fila_nueva) 5]"
    by simp
  moreover from t w have "\<forall>ev \<in> set (classify 5 4 (normalizeUser ejemplo_host
        (getRange_values (the (usuarios (after (processNewUser ejemplo_host
             (normalizeUser ejemplo_host fila_nueva) 5 world_con_fila_nueva)))) 5))).
      \<not> is_NewUser ev"
    by blast
  then have "filter is_NewUser (classify 5 4 (normalizeUser ejemplo_host
        (getRange_values (the (usuarios (after (processNewUser ejemplo_host
             (normalizeUser ejemplo_host fila_nueva) 5 world_con_fila_nueva)))) 5))) = []"
    by (simp add: filter_empty_conv)
  moreover have "usuarios world_con_fila_nueva \<noteq> None"
    by (simp add: world_con_fila_nueva_def ejemplo_world_def)
  ultimately show ?thesis using fields(1) by simp
qed

lemma deactivation_registered:
  "r > 1 \<Longrightarrow> truthy (userData ! 5) \<Longrightarrow>
   classify r 5 (normalizeUser h userData) =
     (if active (normalizeUser h userData) then [] else [Deactivation (normalizeUser h userData)])"
  by (simp add: classify_def esNuevo_normalize)

text \<open>
  Claim C3. The claim has an edit of the Active column with the new value false yield a
  Deactivation only on a row whose registration date is present. The handler tests the
  column and the value only: on the registry with the row of Carla, where nothing but the
  name is typed and no date is stamped, unticking Active is no new user, is classified
  as a Deactivation, and the trigger logs the event and sends the alert.
\<close>

theorem deactivation_unregistered:
  "dateRegistered (normalizeUser ejemplo_host fila_incompleta) = Null \<and>
   filter is_NewUser (classify 5 5 (normalizeUser ejemplo_host fila_incompleta)) = [] \<and>
   classify 5 5 (normalizeUser ejemplo_host fila_incompleta) =
     [Deactivation (normalizeUser ejemplo_host fila_incompleta)] \<and>
   getRange_values (the (usuarios world_con_fila_incompleta)) 5 = fila_incompleta \<and>
   map is_SendNotification
     (calls (after (onEdit ejemplo_host \<lparr>e_sheet = ''Usuarios'', e_row = 5, e_col = 5\<rparr>
        world_con_fila_incompleta))) = [False, True] \<and>
   map m_subject
     (outbox (after (onEdit ejemplo_host \<lparr>e_sheet = ''Usuarios'', e_row = 5, e_col = 5\<rparr>
        world_con_fila_incompleta))) = [''Usuario inactivo detectado'']"
proof -
  have u: "normalizeUser ejemplo_host fila_incompleta =
      \<lparr>name = Str ''Carla'', email = Str [], role = Str [], group = Str [], active = False,
        dateRegistered = Null, lastAccess = Null\<rparr>"
    by (simp add: normalizeUser_def normalizeField_def fila_incompleta_def trim_def isSpace_def
        or_else_def)
  have c: "classify 5 5 (normalizeUser ejemplo_host fila_incompleta) =
     [Deactivation (normalizeUser ejemplo_host fila_incompleta)]"
    by (simp add: u classify_def filaCompleta_def)
  have g: "getRange_values (the (usuarios world_con_fila_incompleta)) 5 = fila_incompleta"
    by (simp add: world_con_fila_incompleta_def ejemplo_world_def getRange_values_def rowAt_def
        cellAt_def fila_incompleta_def upt_rec)
  have pd: "plain_delivers ejemplo_host world_con_fila_incompleta"
    by (simp add: plain_delivers_def config_of_def getConfig_def world_con_fila_incompleta_def
        ejemplo_world_def ejemplo_config_def cellAt_def true_like_def ejemplo_host_def
        emailRegex_test_def plain_def isSpace_def)
  have e: "onEdit ejemplo_host \<lparr>e_sheet = ''Usuarios'', e_row = 5, e_col = 5\<rparr> world_con_fila_incompleta =
      processInactiveUser ejemplo_host (normalizeUser ejemplo_host fila_incompleta)
        world_con_fila_incompleta"
    using g c processInactiveUser_returns [of ejemplo_host "normalizeUser ejemplo_host fila_incompleta"
        world_con_fila_incompleta]
    by (cases "processInactiveUser ejemplo_host (normalizeUser ejemplo_host fila_incompleta)
        world_con_fila_incompleta")
       (simp_all add: onEdit_def try_catch_def handleUserEdit_classify seq_def
        world_con_fila_incompleta_def ejemplo_world_def)
  show ?thesis
    apply (simp only: e c g)
    apply (simp add: u processInactiveUser_eq logEvent_eq sendNotification_eq seq_def pd)
    apply (simp add: world_con_fila_incompleta_def ejemplo_world_def)
    done
qed

lemma dispatch_RoleChange: "dispatch h [RoleChange u] w = notifyRoleChange h u w"
  by (simp add: seq_def notifyRoleChange_eq)

lemma truthy_dateRegistered_normalize:
  "truthy (dateRegistered (normalizeUser h userData)) = truthy (userData ! 5)"
  by (cases "userData ! 5") (auto simp add: normalizeUser_def or_else_def)

text \<open>
  Claim C6. An edit of the Role column (column 3) on a row below the header whose
  registration date is present is always a RoleChange and nothing else. The processor
  returns; it calls \<^verbatim>\<open>logEvent\<close> once with status WARNING exactly when the role is the
  string Admin, and OK exactly when it is not, and that status is the fifth cell of the
  row the audit sheet receives; it calls \<^verbatim>\<open>sendNotification\<close> exactly when the role is
  Admin, and the mail reaches the outbox exactly when, moreover, the gateway delivers.
\<close>

theorem roleChange_claim:
  "(r > 1 \<and> truthy (userData ! 5) \<longrightarrow>
      classify r 3 (normalizeUser h userData) = [RoleChange (normalizeUser h userData)]) \<and>
   dispatch h [RoleChange u] w = notifyRoleChange h u w \<and>
   returns (notifyRoleChange h u w) \<and>
   calls (after (notifyRoleChange h u w)) =
     calls w @ [LogEvent (roleChange_event h u)] @
       (if role u = Str ''Admin''
        then [SendNotification roleChange_subject (roleChange_body h u)] else []) \<and>
   (filter is_SendNotification (drop (length (calls w)) (calls (after (notifyRoleChange h u w)))) \<noteq> []
      \<longleftrightarrow> role u = Str ''Admin'') \<and>
   (ev_status (roleChange_event h u) = Str ''WARNING'' \<longleftrightarrow> role u = Str ''Admin'') \<and>
   (ev_status (roleChange_event h u) = Str ''OK'' \<longleftrightarrow> role u \<noteq> Str ''Admin'') \<and>
   (audit_writes h w \<longrightarrow>
      registroDeEventos (after (notifyRoleChange h u w)) =
        Some (the (registroDeEventos w) @ [audit_row h (roleChange_event h u)]) \<and>
      audit_row h (roleChange_event h u) ! 4 = ev_status (roleChange_event h u)) \<and>
   outbox (after (notifyRoleChange h u w)) =
     outbox w @
       (if role u = Str ''Admin'' \<and> plain_delivers h w
        then [\<lparr>m_recipient = the (config_of h w) ''emailNotificacion'',
               m_subject = roleChange_subject, m_body = roleChange_body h u, m_htmlBody = None\<rparr>]
        else [])"
proof (intro conjI impI)
  assume "r > 1 \<and> truthy (userData ! 5)"
  then show "classify r 3 (normalizeUser h userData) = [RoleChange (normalizeUser h userData)]"
    by (simp add: classify_def esNuevo_normalize truthy_dateRegistered_normalize)
next
  show "dispatch h [RoleChange u] w = notifyRoleChange h u w" by (rule dispatch_RoleChange)
  show "returns (notifyRoleChange h u w)" by (simp add: notifyRoleChange_eq)
  show "calls (after (notifyRoleChange h u w)) =
     calls w @ [LogEvent (roleChange_event h u)] @
       (if role u = Str ''Admin''
        then [SendNotification roleChange_subject (roleChange_body h u)] else [])"
    by (simp add: notifyRoleChange_eq)
  show "(filter is_SendNotification (drop (length (calls w)) (calls (after (notifyRoleChange h u w)))) \<noteq> [])
      \<longleftrightarrow> role u = Str ''Admin''"
    by (simp add: notifyRoleChange_eq)
  show "ev_status (roleChange_event h u) = Str ''WARNING'' \<longleftrightarrow> role u = Str ''Admin''"
    by (simp add: roleChange_event_def)
  show "ev_status (roleChange_event h u) = Str ''OK'' \<longleftrightarrow> role u \<noteq> Str ''Admin''"
    by (simp add: roleChange_event_def)
  show "outbox (after (notifyRoleChange h u w)) =
     outbox w @
       (if role u = Str ''Admin'' \<and> plain_delivers h w
        then [\<lparr>m_recipient = the (config_of h w) ''emailNotificacion'',
               m_subject = roleChange_subject, m_body = roleChange_body h u, m_htmlBody = None\<rparr>]
        else [])"
    by (simp add: notifyRoleChange_eq)
next
  assume a: "audit_writes h w"
  then show "registroDeEventos (after (notifyRoleChange h u w)) =
        Some (the (registroDeEventos w) @ [audit_row h (roleChange_event h u)])"
    by (auto simp add: notifyRoleChange_eq audit_writes_def)
  show "audit_row h (roleChange_event h u) ! 4 = ev_status (roleChange_event h u)"
    by (simp add: audit_row_def roleChange_event_def or_else_def)
qed

theorem roleChange_claim_witness:
  "(2::nat) > 1 \<and> truthy (fila_admin ! 5) \<and> audit_writes ejemplo_host ejemplo_world \<and>
   role (normalizeUser ejemplo_host fila_admin) = Str ''Admin'' \<and>
   classify 2 3 (normalizeUser ejemplo_host fila_admin) =
     [RoleChange (normalizeUser ejemplo_host fila_admin)] \<and>
   map is_SendNotification
     (calls (after (notifyRoleChange ejemplo_host (normalizeUser ejemplo_host fila_admin) ejemplo_world)))
     = [False, True] \<and>
   audit_row ejemplo_host (roleChange_event ejemplo_host (normalizeUser ejemplo_host fila_admin)) ! 4
     = Str ''WARNING'' \<and>
   length (the (registroDeEventos
     (after (notifyRoleChange ejemplo_host (normalizeUser ejemplo_host fila_admin) ejemplo_world)))) = 2"
proof -
  note t = roleChange_claim [where r = 2 and userData = fila_admin and h = ejemplo_host
      and u = "normalizeUser ejemplo_host fila_admin" and w = ejemplo_world]
  have p: "(2::nat) > 1 \<and> truthy (fila_admin ! 5)" by (simp add: fila_admin_def)
  have a: "audit_writes ejemplo_host ejemplo_world"
    by (simp add: audit_writes_def ejemplo_world_def ejemplo_host_def)
  have ro: "role (normalizeUser ejemplo_host fila_admin) = Str ''Admin''"
    by (simp add: normalizeUser_def normalizeField_def fila_admin_def trim_def isSpace_def)
  have l: "length (the (registroDeEventos ejemplo_world)) = 1" "calls ejemplo_world = []"
    by (simp_all add: ejemplo_world_def)
  from t p have "classify 2 3 (normalizeUser ejemplo_host fila_admin) =
     [RoleChange (normalizeUser ejemplo_host fila_admin)]" by blast
  moreover from t ro l have "map is_SendNotification
     (calls (after (notifyRoleChange ejemplo_host (normalizeUser ejemplo_host fila_admin) ejemplo_world)))
     = [False, True]" by simp
  moreover from t ro a have "audit_row ejemplo_host (roleChange_event ejemplo_host (normalizeUser ejemplo_host fila_admin)) ! 4
     = Str ''WARNING''" by simp
  moreover from t a l have "length (the (registroDeEventos
     (after (notifyRoleChange ejemplo_host (normalizeUser ejemplo_host fila_admin) ejemplo_world)))) = 2"
    by simp
  ultimately show ?thesis using p a ro by simp
qed

text \<open>
  Claim C9, as stated, fails: the handler compares the Active cell with the boolean and
  with the two spellings TRUE and true, not case-insensitively. The spelling True is not
  active.
\<close>

theorem active_mixed_case:
  "active (normalizeUser ejemplo_host fila_True) = False \<and> fila_True ! 4 = Str ''True''"
  by (simp add: normalizeUser_def fila_True_def)

text \<open>
  Claim C9, amended. The normalization of the edit handler makes Active true exactly for
  the boolean true and for the strings TRUE and true; a text cell of the four text columns
  is trimmed, and a trimmed text that is not empty neither starts nor ends with white
  space; an empty date cell becomes \<^verbatim>\<open>null\<close> and a date is kept.
\<close>

theorem normalizeUser_fields:
  "(active (normalizeUser h userData) \<longleftrightarrow>
      userData ! 4 = Bool True \<or> userData ! 4 = Str ''TRUE'' \<or> userData ! 4 = Str ''true'') \<and>
   (\<forall>s. userData ! 0 = Str s \<longrightarrow> name (normalizeUser h userData) = Str (trim s)) \<and>
   (\<forall>s. userData ! 1 = Str s \<longrightarrow> email (normalizeUser h userData) = Str (trim s)) \<and>
   (\<forall>s. userData ! 2 = Str s \<longrightarrow> role (normalizeUser h userData) = Str (trim s)) \<and>
   (\<forall>s. userData ! 3 = Str s \<longrightarrow> group (normalizeUser h userData) = Str (trim s)) \<and>
   (trim s \<noteq> [] \<longrightarrow> \<not> isSpace (hd (trim s)) \<and> \<not> isSpace (last (trim s))) \<and>
   (userData ! 5 = Str [] \<longrightarrow> dateRegistered (normalizeUser h userData) = Null) \<and>
   (userData ! 6 = Str [] \<longrightarrow> lastAccess (normalizeUser h userData) = Null) \<and>
   (\<forall>t. userData ! 5 = Date t \<longrightarrow> dateRegistered (normalizeUser h userData) = Date t) \<and>
   (\<forall>t. userData ! 6 = Date t \<longrightarrow> lastAccess (normalizeUser h userData) = Date t)"
  using trim_ends [of s]
  by (simp add: normalizeUser_def normalizeField_Str or_else_def)

theorem normalizeUser_fields_witness:
  "fila_nueva ! 0 = Str '' Pedro '' \<and> fila_nueva ! 5 = Str [] \<and> fila_nueva ! 6 = Str [] \<and>
   fila_nueva ! 4 = Str ''TRUE'' \<and>
   trim '' Pedro '' = ''Pedro'' \<and>
   active (normalizeUser ejemplo_host fila_nueva) \<and>
   name (normalizeUser ejemplo_host fila_nueva) = Str ''Pedro'' \<and>
   dateRegistered (normalizeUser ejemplo_host fila_nueva) = Null \<and>
   lastAccess (normalizeUser ejemplo_host fila_nueva) = Null \<and>
   \<not> isSpace (hd (trim '' Pedro '')) \<and> \<not> isSpace (last (trim '' Pedro ''))"
proof -
  note t = normalizeUser_fields [where h = ejemplo_host and userData = fila_nueva and s = "'' Pedro ''"]
  have c: "fila_nueva ! 0 = Str '' Pedro ''" "fila_nueva ! 5 = Str []" "fila_nueva ! 6 = Str []"
    "fila_nueva ! 4 = Str ''TRUE''"
    by (simp_all add: fila_nueva_def)
  have tr: "trim '' Pedro '' = ''Pedro''" by (simp add: trim_def isSpace_def)
  from t c have "active (normalizeUser ejemplo_host fila_nueva)" by simp
  moreover from t c tr have "name (normalizeUser ejemplo_host fila_nueva) = Str ''Pedro''" by simp
  moreover from t c have "dateRegistered (normalizeUser ejemplo_host fila_nueva) = Null"
    "lastAccess (normalizeUser ejemplo_host fila_nueva) = Null" by simp_all
  moreover from t tr have "\<not> isSpace (hd (trim '' Pedro '')) \<and> \<not> isSpace (last (trim '' Pedro ''))"
    by simp
  ultimately show ?thesis using c tr by simp
qed

subsection \<open>The gateways\<close>

lemma plain_dot: "plain (CHR ''.'')" and not_plain_at: "\<not> plain (CHR ''@'')"
  by (simp_all add: plain_def isSpace_def)

lemma emailRegex_test_iff:
  "emailRegex_test s \<longleftrightarrow>
     (\<exists>a b c. s = a @ [CHR ''@''] @ b @ [CHR ''.''] @ c \<and> a \<noteq> [] \<and> b \<noteq> [] \<and> c \<noteq> [] \<and>
        list_all plain a \<and> list_all plain b \<and> list_all plain c)"
proof
  assume t: "emailRegex_test s"
  define a where "a = takeWhile plain s"
  from t have ane: "a \<noteq> []" by (simp add: emailRegex_test_def a_def Let_def)
  from t obtain rest where d: "drop (length a) s = CHR ''@'' # rest"
    and pr: "list_all plain rest" and dot: "CHR ''.'' \<in> set (butlast (tl rest))"
    by (auto simp add: emailRegex_test_def a_def Let_def split: list.splits)
  have "s = takeWhile plain s @ dropWhile plain s" by simp
  moreover have "dropWhile plain s = drop (length a) s" by (simp add: a_def dropWhile_eq_drop)
  ultimately have s: "s = a @ CHR ''@'' # rest" using d by (simp add: a_def)
  from dot obtain p q where pq: "butlast (tl rest) = p @ CHR ''.'' # q" by (auto dest: split_list)
  then have tne: "tl rest \<noteq> []" by auto
  then have rne: "rest \<noteq> []" by auto
  have "tl rest = butlast (tl rest) @ [last (tl rest)]" using tne by simp
  then have "rest = (hd rest # p) @ [CHR ''.''] @ (q @ [last (tl rest)])"
    using rne pq by (metis append_Cons append_Nil append_assoc list.collapse)
  moreover have "list_all plain a" by (simp add: a_def list_all_iff) (meson set_takeWhileD)
  moreover have "list_all plain (hd rest # p)" "list_all plain (q @ [last (tl rest)])"
    using pr calculation(1) by (metis list_all_append)+
  ultimately show "\<exists>a b c. s = a @ [CHR ''@''] @ b @ [CHR ''.''] @ c \<and> a \<noteq> [] \<and> b \<noteq> [] \<and> c \<noteq> [] \<and>
        list_all plain a \<and> list_all plain b \<and> list_all plain c"
    using s ane by (intro exI[of _ a] exI[of _ "hd rest # p"] exI[of _ "q @ [last (tl rest)]"]) simp
next
  assume "\<exists>a b c. s = a @ [CHR ''@''] @ b @ [CHR ''.''] @ c \<and> a \<noteq> [] \<and> b \<noteq> [] \<and> c \<noteq> [] \<and>
        list_all plain a \<and> list_all plain b \<and> list_all plain c"
  then obtain a b c where s: "s = a @ [CHR ''@''] @ b @ [CHR ''.''] @ c"
    and ne: "a \<noteq> []" "b \<noteq> []" "c \<noteq> []"
    and pl: "list_all plain a" "list_all plain b" "list_all plain c" by blast
  have tw: "takeWhile plain s = a"
    using pl(1) not_plain_at by (simp add: s list_all_iff takeWhile_tail)
  have dr: "drop (length a) s = CHR ''@'' # (b @ CHR ''.'' # c)" by (simp add: s)
  obtain b0 b' where b: "b = b0 # b'" using ne(2) by (cases b) auto
  have "butlast (tl (b @ CHR ''.'' # c)) = b' @ CHR ''.'' # butlast c"
    using ne(3) by (simp add: b butlast_append)
  then have "CHR ''.'' \<in> set (butlast (tl (b @ CHR ''.'' # c)))" by simp
  moreover have "list_all plain (b @ CHR ''.'' # c)" using pl plain_dot by simp
  ultimately show "emailRegex_test s"
    using ne(1) by (simp add: emailRegex_test_def tw dr)
qed

lemma gateway_results:
  "result (sendNotification h subject body w) = Some (plain_delivers h w)"
  "result (sendHtmlNotification h subject htmlBody w) = Some (rich_delivers h w)"
  "result (createCalendarEvent h title description startTime endTime w) = Some (schedule_books h w)"
  by (simp_all add: sendNotification_eq sendHtmlNotification_eq createCalendarEvent_eq)

text \<open>
  Claim C8. Each of the three gateway operations returns a boolean and never throws. It
  returns false when the configuration sheet is missing, when its enable flag is not
  true-like, when the validation fails (for the plain mail, the address does not have the
  shape of the regular expression; for the calendar, the lookup gives no calendar or
  throws), and when the transport throws; in all other cases it returns true. It has
  delivered its mail or booked its event exactly when it returns true.
\<close>

theorem gateways_return_boolean:
  "result (sendNotification h subject body w) = Some (plain_delivers h w) \<and>
   result (sendHtmlNotification h subject htmlBody w) = Some (rich_delivers h w) \<and>
   result (createCalendarEvent h title description startTime endTime w) = Some (schedule_books h w) \<and>
   (config_of h w = None \<longrightarrow>
      \<not> plain_delivers h w \<and> \<not> rich_delivers h w \<and> \<not> schedule_books h w) \<and>
   (\<forall>config. config_of h w = Some config \<longrightarrow>
      (\<not> true_like (config ''notificarAdmins'') \<longrightarrow> \<not> plain_delivers h w \<and> \<not> rich_delivers h w) \<and>
      (\<not> emailRegex_test (toString h (config ''emailNotificacion'')) \<longrightarrow> \<not> plain_delivers h w) \<and>
      (GmailApp_sendEmail h (config ''emailNotificacion'') \<noteq> None \<longrightarrow>
         \<not> plain_delivers h w \<and> \<not> rich_delivers h w) \<and>
      (\<not> true_like (config ''crearEventoCalendar'') \<longrightarrow> \<not> schedule_books h w) \<and>
      (CalendarApp_getCalendarById h (config ''calendarioId'') \<noteq> CalendarFound \<longrightarrow>
         \<not> schedule_books h w) \<and>
      (calendar_createEvent h \<noteq> None \<longrightarrow> \<not> schedule_books h w) \<and>
      (true_like (config ''notificarAdmins'') \<and>
       emailRegex_test (toString h (config ''emailNotificacion'')) \<and>
       GmailApp_sendEmail h (config ''emailNotificacion'') = None \<longrightarrow> plain_delivers h w) \<and>
      (true_like (config ''notificarAdmins'') \<and>
       GmailApp_sendEmail h (config ''emailNotificacion'') = None \<longrightarrow> rich_delivers h w) \<and>
      (true_like (config ''crearEventoCalendar'') \<and>
       CalendarApp_getCalendarById h (config ''calendarioId'') = CalendarFound \<and>
       calendar_createEvent h = None \<longrightarrow> schedule_books h w)) \<and>
   outbox (after (sendNotification h subject body w)) =
     outbox w @
       (if plain_delivers h w
        then [\<lparr>m_recipient = the (config_of h w) ''emailNotificacion'', m_subject = subject,
               m_body = body, m_htmlBody = None\<rparr>]
        else []) \<and>
   outbox (after (sendHtmlNotification h subject htmlBody w)) =
     outbox w @
       (if rich_delivers h w
        then [\<lparr>m_recipient = the (config_of h w) ''emailNotificacion'', m_subject = subject,
               m_body = [], m_htmlBody = Some htmlBody\<rparr>]
        else []) \<and>
   agenda (after (createCalendarEvent h title description startTime endTime w)) =
     agenda w @
       (if schedule_books h w
        then [\<lparr>c_title = title, c_start = startTime, c_end = endTime,
               c_description = description, c_sendInvites = False\<rparr>]
        else [])"
  by (simp add: sendNotification_eq sendHtmlNotification_eq createCalendarEvent_eq
      plain_delivers_def rich_delivers_def schedule_books_def)

lemma ejemplo_config_of:
  "config_of h ejemplo_world =
     Some (\<lambda>k. if k = ''crearEventoCalendar'' then Bool True
               else if k = ''notificarAdmins'' then Str ''TRUE''
               else if k = ''calendarioId'' then Str ''primary''
               else if k = ''emailNotificacion'' then Str ''admin@empresa.com''
               else Undefined)"
  by (auto simp add: config_of_def getConfig_def ejemplo_world_def ejemplo_config_def cellAt_def
      fun_eq_iff)

lemma emailRegex_test_admin: "emailRegex_test ''admin@empresa.com''"
  by (simp add: emailRegex_test_def plain_def isSpace_def)

lemma ejemplo_delivers:
  "plain_delivers ejemplo_host ejemplo_world"
  "rich_delivers ejemplo_host ejemplo_world"
  "schedule_books ejemplo_host ejemplo_world"
  "\<not> rich_delivers host_sin_gmail ejemplo_world"
  "schedule_books host_sin_gmail ejemplo_world"
  by (simp_all add: plain_delivers_def rich_delivers_def schedule_books_def ejemplo_config_of
      true_like_def ejemplo_host_def host_sin_gmail_def emailRegex_test_admin)

theorem gateways_return_boolean_witness:
  "config_of ejemplo_host ejemplo_world \<noteq> None \<and>
   true_like (the (config_of ejemplo_host ejemplo_world) ''notificarAdmins'') \<and>
   true_like (the (config_of ejemplo_host ejemplo_world) ''crearEventoCalendar'') \<and>
   result (sendNotification ejemplo_host ''Prueba'' ''Cuerpo'' ejemplo_world) = Some True \<and>
   result (sendHtmlNotification ejemplo_host ''Prueba'' ''<p>Cuerpo</p>'' ejemplo_world) = Some True \<and>
   result (createCalendarEvent ejemplo_host ''Prueba'' ''Evento'' 10 20 ejemplo_world) = Some True \<and>
   length (outbox (after (sendNotification ejemplo_host ''Prueba'' ''Cuerpo'' ejemplo_world))) = 1 \<and>
   length (agenda (after (createCalendarEvent ejemplo_host ''Prueba'' ''Evento'' 10 20 ejemplo_world))) = 1"
proof -
  note t = gateways_return_boolean [where h = ejemplo_host and w = ejemplo_world
      and subject = "''Prueba''" and body = "''Cuerpo''" and htmlBody = "''<p>Cuerpo</p>''"
      and title = "''Prueba''" and description = "''Evento''" and startTime = 10 and endTime = 20]
  have c: "config_of ejemplo_host ejemplo_world \<noteq> None"
    "true_like (the (config_of ejemplo_host ejemplo_world) ''notificarAdmins'')"
    "true_like (the (config_of ejemplo_host ejemplo_world) ''crearEventoCalendar'')"
    by (simp_all add: ejemplo_config_of true_like_def)
  have e: "outbox ejemplo_world = []" "agenda ejemplo_world = []" by (simp_all add: ejemplo_world_def)
  from t ejemplo_delivers e c show ?thesis by simp
qed

subsection \<open>The new-user processor\<close>

lemma tomorrowAt_slot:
  "tomorrowAt h 11 = tomorrowAt h 10 + 3600000"
  "(tomorrowAt h 10 + tzOffset h) mod 86400000 = 10 * 3600000"
  "(tomorrowAt h 10 + tzOffset h) div 86400000 = (now h + tzOffset h) div 86400000 + 1"
  by (simp_all add: tomorrowAt_def)

text \<open>
  Claim C7. With the sheet Usuarios at hand, \<^verbatim>\<open>processNewUser\<close> returns, and its calls are,
  in this order: the write of the registration date, the write of the last access, the
  audit event USUARIO_AGREGADO with status OK, the welcome mail, and the calendar event
  from 10:00 to 11:00 local time of the next day. Both cells hold the current time
  afterwards and the audit row is in the sheet when the sheet takes it, whatever the mail
  gateway did; the event is booked whenever the scheduling gateway books, whether the
  mail was delivered or not.
\<close>

theorem processNewUser_order:
  assumes "usuarios w = Some data" and "r \<ge> 1"
  shows
    "returns (processNewUser h u r w) \<and>
     calls (after (processNewUser h u r w)) =
       calls w @
         [SetValue r 6 (Date (now h)),
          SetValue r 7 (Date (now h)),
          LogEvent (newUser_event h u),
          SendHtmlNotification ''Nuevo usuario agregado'' (newUser_htmlBody h u),
          CreateCalendarEvent (''Onboarding: '' @ toString h (name u)) (newUser_description h u)
            (tomorrowAt h 10) (tomorrowAt h 11)] \<and>
     ev_type (newUser_event h u) = Str ''USUARIO_AGREGADO'' \<and>
     ev_status (newUser_event h u) = Str ''OK'' \<and>
     tomorrowAt h 11 = tomorrowAt h 10 + 3600000 \<and>
     (tomorrowAt h 10 + tzOffset h) mod 86400000 = 10 * 3600000 \<and>
     (tomorrowAt h 10 + tzOffset h) div 86400000 = (now h + tzOffset h) div 86400000 + 1 \<and>
     usuarios_cell (after (processNewUser h u r w)) r 6 = Date (now h) \<and>
     usuarios_cell (after (processNewUser h u r w)) r 7 = Date (now h) \<and>
     (audit_writes h w \<longrightarrow>
        registroDeEventos (after (processNewUser h u r w)) =
          Some (the (registroDeEventos w) @ [audit_row h (newUser_event h u)])) \<and>
     outbox (after (processNewUser h u r w)) =
       outbox w @
         (if rich_delivers h w
          then [\<lparr>m_recipient = the (config_of h w) ''emailNotificacion'',
                 m_subject = ''Nuevo usuario agregado'', m_body = [],
                 m_htmlBody = Some (newUser_htmlBody h u)\<rparr>]
          else []) \<and>
     (schedule_books h w \<longrightarrow>
        agenda (after (processNewUser h u r w)) =
          agenda w @
            [\<lparr>c_title = ''Onboarding: '' @ toString h (name u),
              c_start = tomorrowAt h 10, c_end = tomorrowAt h 11,
              c_description = newUser_description h u, c_sendInvites = False\<rparr>])"
proof -
  note eq = processNewUser_eq [OF assms, of h u]
  have "returns (processNewUser h u r w)" by (simp add: eq)
  moreover have "calls (after (processNewUser h u r w)) =
       calls w @
         [SetValue r 6 (Date (now h)),
          SetValue r 7 (Date (now h)),
          LogEvent (newUser_event h u),
          SendHtmlNotification ''Nuevo usuario agregado'' (newUser_htmlBody h u),
          CreateCalendarEvent (''Onboarding: '' @ toString h (name u)) (newUser_description h u)
            (tomorrowAt h 10) (tomorrowAt h 11)]"
    by (simp add: eq)
  moreover have "ev_type (newUser_event h u) = Str ''USUARIO_AGREGADO''"
    "ev_status (newUser_event h u) = Str ''OK''"
    by (simp_all add: newUser_event_def)
  moreover note tomorrowAt_slot [of h] processNewUser_stamps [OF assms, of h u]
  moreover have "audit_writes h w \<longrightarrow>
        registroDeEventos (after (processNewUser h u r w)) =
          Some (the (registroDeEventos w) @ [audit_row h (newUser_event h u)])"
    by (auto simp add: eq audit_writes_def)
  moreover have "outbox (after (processNewUser h u r w)) =
       outbox w @
         (if rich_delivers h w
          then [\<lparr>m_recipient = the (config_of h w) ''emailNotificacion'',
                 m_subject = ''Nuevo usuario agregado'', m_body = [],
                 m_htmlBody = Some (newUser_htmlBody h u)\<rparr>]
          else [])"
    by (simp add: eq)
  moreover have "schedule_books h w \<longrightarrow>
        agenda (after (processNewUser h u r w)) =
          agenda w @
            [\<lparr>c_title = ''Onboarding: '' @ toString h (name u),
              c_start = tomorrowAt h 10, c_end = tomorrowAt h 11,
              c_description = newUser_description h u, c_sendInvites = False\<rparr>]"
    by (simp add: eq)
  ultimately show ?thesis by blast
qed

theorem processNewUser_order_witness:
  "usuarios world_con_fila_nueva \<noteq> None \<and> (5::nat) \<ge> 1 \<and>
   audit_writes host_sin_gmail world_con_fila_nueva \<and>
   schedule_books host_sin_gmail world_con_fila_nueva \<and>
   \<not> rich_delivers host_sin_gmail world_con_fila_nueva \<and>
   outbox (after (processNewUser host_sin_gmail (normalizeUser host_sin_gmail fila_nueva) 5
     world_con_fila_nueva)) = [] \<and>
   map c_start (agenda (after (processNewUser host_sin_gmail (normalizeUser host_sin_gmail fila_nueva) 5
     world_con_fila_nueva))) = [86544000000] \<and>
   map c_end (agenda (after (processNewUser host_sin_gmail (normalizeUser host_sin_gmail fila_nueva) 5
     world_con_fila_nueva))) = [86547600000] \<and>
   usuarios_cell (after (processNewUser host_sin_gmail (normalizeUser host_sin_gmail fila_nueva) 5
     world_con_fila_nueva)) 5 6 = Date 86443200000 \<and>
   usuarios_cell (after (processNewUser host_sin_gmail (normalizeUser host_sin_gmail fila_nueva) 5
     world_con_fila_nueva)) 5 7 = Date 86443200000 \<and>
   length (the (registroDeEventos (after (processNewUser host_sin_gmail
     (normalizeUser host_sin_gmail fila_nueva) 5 world_con_fila_nueva)))) = 2"
proof -
  have w: "usuarios world_con_fila_nueva = Some (the (usuarios world_con_fila_nueva))"
    by (simp add: world_con_fila_nueva_def ejemplo_world_def)
  have r: "(5::nat) \<ge> 1" by simp
  note t = processNewUser_order [OF w r, of host_sin_gmail "normalizeUser host_sin_gmail fila_nueva"]
  have a: "audit_writes host_sin_gmail world_con_fila_nueva"
    by (simp add: audit_writes_def world_con_fila_nueva_def ejemplo_world_def host_sin_gmail_def
        ejemplo_host_def)
  have d: "schedule_books host_sin_gmail world_con_fila_nueva"
    "\<not> rich_delivers host_sin_gmail world_con_fila_nueva"
    using ejemplo_delivers by (simp_all add: world_con_fila_nueva_def)
  have e: "outbox world_con_fila_nueva = []" "agenda world_con_fila_nueva = []"
    "length (the (registroDeEventos world_con_fila_nueva)) = 1"
    by (simp_all add: world_con_fila_nueva_def ejemplo_world_def)
  have n: "now host_sin_gmail = 86443200000" "tomorrowAt host_sin_gmail 10 = 86544000000"
    "tomorrowAt host_sin_gmail 11 = 86547600000"
    by (simp_all add: tomorrowAt_def host_sin_gmail_def ejemplo_host_def)
  have u: "usuarios world_con_fila_nueva \<noteq> None"
    by (simp add: world_con_fila_nueva_def ejemplo_world_def)
  from t a d e n show ?thesis using u by simp
qed

subsection \<open>The daily check\<close>

lemma firstMatch_cong:
  "map (\<lambda>r. cellAt r 0) rs = map (\<lambda>r. cellAt r 0) rs' \<Longrightarrow> firstMatch nm rs i = firstMatch nm rs' i"
proof (induction rs arbitrary: rs' i)
  case Nil
  then show ?case by simp
next
  case (Cons r rs)
  then obtain r' rs'' where "rs' = r' # rs''" by (cases rs') auto
  with Cons show ?case by auto
qed

lemma firstMatch_Some:
  "firstMatch nm rs k = Some i \<Longrightarrow>
     k \<le> i \<and> i < k + length rs \<and> strict_eq (cellAt (rs ! (i - k)) 0) nm"
proof (induction rs arbitrary: k)
  case Nil
  then show ?case by simp
next
  case (Cons r rs)
  show ?case
  proof (cases "strict_eq (cellAt r 0) nm")
    case True
    with Cons.prems show ?thesis by simp
  next
    case False
    with Cons.prems have "firstMatch nm rs (Suc k) = Some i" by simp
    from Cons.IH [OF this] have "Suc k \<le> i" "i < Suc k + length rs"
      "strict_eq (cellAt (rs ! (i - Suc k)) 0) nm" by auto
    moreover from this(1) have "(r # rs) ! (i - k) = rs ! (i - Suc k)"
      by (simp add: nth_Cons')
    ultimately show ?thesis by simp
  qed
qed

lemma findRow_Some: "findRow data nm = Some i \<Longrightarrow> 1 \<le> i \<and> i < length data \<and> strict_eq (cellAt (data ! i) 0) nm"
proof -
  assume "findRow data nm = Some i"
  then have f: "firstMatch nm (drop 1 data) 1 = Some i" by (simp add: findRow_def)
  from firstMatch_Some [OF f] have "1 \<le> i" "i < 1 + length (drop 1 data)"
    "strict_eq (cellAt (drop 1 data ! (i - 1)) 0) nm" by auto
  then show ?thesis by (cases data) (auto simp add: nth_Cons split: nat.splits)
qed

lemma names_setCell:
  assumes "1 \<le> r" "r \<le> length data" "2 \<le> c"
  shows "map (\<lambda>r. cellAt r 0) (setCell data r c v) = map (\<lambda>r. cellAt r 0) data"
proof (rule nth_equalityI)
  show len: "length (map (\<lambda>r. cellAt r 0) (setCell data r c v)) = length (map (\<lambda>r. cellAt r 0) data)"
    using assms by (simp add: length_setCell)
  fix i assume "i < length (map (\<lambda>r. cellAt r 0) (setCell data r c v))"
  then have i: "i < length data" "i < length (setCell data r c v)" using len by simp_all
  have "cellAt (rowAt (setCell data r c v) i) 0 = cellAt (rowAt data i) 0"
    using assms by (simp add: setCell_read)
  then show "map (\<lambda>r. cellAt r 0) (setCell data r c v) ! i = map (\<lambda>r. cellAt r 0) data ! i"
    using i by (simp add: rowAt_def)
qed

lemma names_desactivar: "map (\<lambda>r. cellAt r 0) (desactivar data nm) = map (\<lambda>r. cellAt r 0) data"
proof (cases "findRow data nm")
  case None
  then show ?thesis by (simp add: desactivar_def)
next
  case (Some i)
  from findRow_Some [OF Some] show ?thesis by (simp add: desactivar_def Some names_setCell)
qed

lemma length_desactivar: "length (desactivar data nm) = length data"
  using arg_cong [OF names_desactivar, of length data nm] by simp

lemma findRow_desactivar: "findRow (desactivar data nm) nm' = findRow data nm'"
proof -
  have "map (\<lambda>r. cellAt r 0) (drop 1 (desactivar data nm)) = map (\<lambda>r. cellAt r 0) (drop 1 data)"
    using names_desactivar [of data nm] by (simp add: drop_map [symmetric])
  then show ?thesis unfolding findRow_def by (rule firstMatch_cong)
qed

lemma desactivar_read:
  "cellAt (rowAt (desactivar data nm) i) k =
     (if k = 4 \<and> findRow data nm = Some i then Str ''FALSE'' else cellAt (rowAt data i) k)"
proof (cases "findRow data nm")
  case None
  then show ?thesis by (simp add: desactivar_def)
next
  case (Some j)
  then show ?thesis by (auto simp add: desactivar_def setCell_read)
qed

lemma getUsers_eq:
  "getUsers w = Ret (case usuarios w of None \<Rightarrow> [] | Some data \<Rightarrow> users_of data) w"
  by (simp add: getUsers_def users_of_def split: option.splits)

lemma verificarUsuario_eq:
  assumes "usuarios w = Some data"
  shows "verificarUsuario h u acc w =
     (if vencido h u
      then Ret (acc @ [entrada h u])
             (w\<lparr>usuarios := Some (desactivar data (name u)),
                calls := calls w @ llamadas data h u,
                registroDeEventos :=
                  map_option (\<lambda>log. if sheet_appendRow h = None
                        then log @ [audit_row h (inactivo_event u (dias_de h u))] else log)
                    (registroDeEventos w)\<rparr>)
      else Ret acc w)"
proof (cases "vencido h u")
  case False
  then show ?thesis
    by (auto simp add: verificarUsuario_def vencido_def dias_de_def split: option.splits)
next
  case True
  then have d: "getDaysSinceLastAccess h (lastAccess u) = Some (dias_de h u)" "dias_de h u > 7"
    "active u"
    by (auto simp add: vencido_def dias_de_def split: option.splits)
  show ?thesis
  proof (cases "findRow data (name u)")
    case None
    then show ?thesis using True d assms
      by (cases w; cases "registroDeEventos w")
         (simp_all add: verificarUsuario_def seq_def logEvent_eq desactivar_def llamadas_def entrada_def)
  next
    case (Some i)
    then show ?thesis using True d assms
      by (cases "registroDeEventos w")
         (simp_all add: verificarUsuario_def seq_def logEvent_eq desactivar_def llamadas_def
          entrada_def setValue_eq)
  qed
qed

lemma llamadas_desactivar: "llamadas (desactivar data nm) h u = llamadas data h u"
  by (simp add: llamadas_def findRow_desactivar)

lemma forEach_user_eq:
  assumes "usuarios w = Some data"
  shows "forEach_user h us acc w =
     Ret (acc @ map (entrada h) (filter (vencido h) us))
       (w\<lparr>usuarios := Some (fold (\<lambda>u d. desactivar d (name u)) (filter (vencido h) us) data),
          calls := calls w @ concat (map (llamadas data h) (filter (vencido h) us)),
          registroDeEventos :=
            map_option (\<lambda>log. if sheet_appendRow h = None
                  then log @ map (\<lambda>u. audit_row h (inactivo_event u (dias_de h u)))
                               (filter (vencido h) us)
                  else log)
              (registroDeEventos w)\<rparr>)"
  using assms
proof (induction us arbitrary: acc w data)
  case Nil
  then show ?case by (cases w; cases "sheet_appendRow h") (simp_all add: option.map_ident)
next
  case (Cons u us)
  show ?case
  proof (cases "vencido h u")
    case False
    then show ?thesis
      by (cases "sheet_appendRow h")
         (simp_all add: verificarUsuario_eq [OF Cons.prems] Cons.IH [OF Cons.prems])
  next
    case True
    define w1 where "w1 = w\<lparr>usuarios := Some (desactivar data (name u)),
                calls := calls w @ llamadas data h u,
                registroDeEventos :=
                  map_option (\<lambda>log. if sheet_appendRow h = None
                        then log @ [audit_row h (inactivo_event u (dias_de h u))] else log)
                    (registroDeEventos w)\<rparr>"
    have u1: "usuarios w1 = Some (desactivar data (name u))" by (simp add: w1_def)
    have step: "verificarUsuario h u acc w = Ret (acc @ [entrada h u]) w1"
      using True by (simp add: verificarUsuario_eq [OF Cons.prems] w1_def)
    have "forEach_user h (u # us) acc w = forEach_user h us (acc @ [entrada h u]) w1"
      by (simp add: step)
    also note Cons.IH [OF u1]
    finally show ?thesis
      using True
      by (cases "sheet_appendRow h")
         (simp_all add: w1_def llamadas_desactivar option.map_comp o_def)
  qed
qed

lemma verificarUsuariosInactivos_None:
  "usuarios w = None \<Longrightarrow> verificarUsuariosInactivos h w = Ret () w"
  by (simp add: verificarUsuariosInactivos_def seq_def getUsers_def)

lemma verificarUsuariosInactivos_eq:
  assumes "usuarios w = Some data"
  shows "verificarUsuariosInactivos h w =
     Ret ()
       (w\<lparr>usuarios := Some (fold (\<lambda>u d. desactivar d (name u)) (filter (vencido h) (users_of data)) data),
          calls := calls w @ concat (map (llamadas data h) (filter (vencido h) (users_of data))) @
            (if filter (vencido h) (users_of data) = [] then []
             else [SendHtmlNotification (reporte_subject h)
                     (reporte_htmlBody h (map (entrada h) (filter (vencido h) (users_of data))))]),
          registroDeEventos :=
            map_option (\<lambda>log. if sheet_appendRow h = None
                  then log @ map (\<lambda>u. audit_row h (inactivo_event u (dias_de h u)))
                               (filter (vencido h) (users_of data))
                  else log)
              (registroDeEventos w),
          outbox := outbox w @
            (if filter (vencido h) (users_of data) \<noteq> [] \<and> rich_delivers h w
             then [\<lparr>m_recipient = the (config_of h w) ''emailNotificacion'',
                    m_subject = reporte_subject h, m_body = [],
                    m_htmlBody = Some (reporte_htmlBody h
                      (map (entrada h) (filter (vencido h) (users_of data))))\<rparr>]
             else [])\<rparr>)"
  using assms
  by (simp add: verificarUsuariosInactivos_def seq_def getUsers_eq forEach_user_eq [OF assms]
      enviarReporteInactivos_def sendHtmlNotification_eq)

lemma verificarUsuariosInactivos_returns: "returns (verificarUsuariosInactivos h w)"
  by (cases "usuarios w")
     (simp_all add: verificarUsuariosInactivos_None verificarUsuariosInactivos_eq)

lemma getDaysSinceLastAccess_empty: "getDaysSinceLastAccess h (Str []) = None"
  by (simp add: getDaysSinceLastAccess_def)

lemma not_vencido_empty: "lastAccess u = Str [] \<Longrightarrow> \<not> vencido h u"
  by (simp add: vencido_def dias_de_def getDaysSinceLastAccess_empty)

lemma sweep_nothing_due:
  assumes "usuarios w = Some data" and "filter (vencido h) (users_of data) = []"
  shows "verificarUsuariosInactivos h w = Ret () w"
proof -
  have "verificarUsuariosInactivos h w =
      Ret () (w\<lparr>usuarios := Some data, calls := calls w,
                registroDeEventos := registroDeEventos w, outbox := outbox w\<rparr>)"
    using assms(2)
    by (cases "sheet_appendRow h")
       (simp_all add: verificarUsuariosInactivos_eq [OF assms(1)] option.map_ident)
  also have "w\<lparr>usuarios := Some data, calls := calls w,
                registroDeEventos := registroDeEventos w, outbox := outbox w\<rparr> = w"
    using assms(1) by (cases w) simp
  finally show ?thesis .
qed

text \<open>
  Claim C4. The claim has a user without a last access counted with a large sentinel and
  deactivated. \<^verbatim>\<open>getDaysSinceLastAccess\<close> has no sentinel: for the empty cell the date is
  invalid, the day count is NaN and \<^verbatim>\<open>dias > 7\<close> is false. On the registry whose only user
  is active and has an empty last-access cell, the daily check changes nothing, and the
  Active cell still holds \<^verbatim>\<open>true\<close>.
\<close>

theorem sweep_empty_lastAccess:
  "lastAccess (getUsers_entry fila_sin_acceso) = Str [] \<and>
   active (getUsers_entry fila_sin_acceso) \<and>
   getDaysSinceLastAccess ejemplo_host (lastAccess (getUsers_entry fila_sin_acceso)) = None \<and>
   result (getUsers world_sin_acceso) = Some [getUsers_entry fila_sin_acceso] \<and>
   verificarUsuario ejemplo_host (getUsers_entry fila_sin_acceso) [] world_sin_acceso =
     Ret [] world_sin_acceso \<and>
   verificarUsuariosInactivos ejemplo_host world_sin_acceso = Ret () world_sin_acceso \<and>
   usuarios_cell (after (verificarUsuariosInactivos ejemplo_host world_sin_acceso)) 2 5 = Bool True"
proof -
  have l: "lastAccess (getUsers_entry fila_sin_acceso) = Str []"
    and a: "active (getUsers_entry fila_sin_acceso)"
    by (simp_all add: getUsers_entry_def fila_sin_acceso_def cellAt_def)
  have u: "usuarios world_sin_acceso = Some [encabezados, fila_sin_acceso]"
    by (simp add: world_sin_acceso_def)
  have us: "users_of [encabezados, fila_sin_acceso] = [getUsers_entry fila_sin_acceso]"
    by (simp add: users_of_def fila_sin_acceso_def cellAt_def)
  have nv: "\<not> vencido ejemplo_host (getUsers_entry fila_sin_acceso)"
    using l by (rule not_vencido_empty)
  have s: "verificarUsuariosInactivos ejemplo_host world_sin_acceso = Ret () world_sin_acceso"
    using u by (rule sweep_nothing_due) (simp add: us nv)
  have c: "usuarios_cell world_sin_acceso 2 5 = Bool True"
    by (simp add: usuarios_cell_def u rowAt_def cellAt_def fila_sin_acceso_def)
  show ?thesis
    using l a nv c
    by (simp add: s getDaysSinceLastAccess_empty getUsers_eq u us verificarUsuario_eq [OF u])
qed

lemma llamadas_no_alert: "filter is_SendNotification (llamadas data h u) = []"
  by (simp add: llamadas_def split: option.splits)

lemma llamadas_all_no_alert:
  "filter is_SendNotification (concat (map (llamadas data h) us)) = []"
  by (induction us) (simp_all add: llamadas_no_alert)

lemma llamadas_LogEvent: "LogEvent (inactivo_event u (dias_de h u)) \<in> set (llamadas data h u)"
  by (simp add: llamadas_def)

lemma tabla_lists: "e \<in> set batch \<Longrightarrow> sublist (tabla_row h e) (tabla h batch)"
proof -
  assume "e \<in> set batch"
  then obtain p q where "batch = p @ e # q" by (auto dest: split_list)
  then have "tabla h batch = tabla h p @ tabla_row h e @ tabla h q" by (simp add: tabla_def)
  then show ?thesis unfolding sublist_def by blast
qed

lemma reporte_lists: "e \<in> set batch \<Longrightarrow> sublist (tabla_row h e) (reporte_htmlBody h batch)"
proof -
  assume "e \<in> set batch"
  then have "sublist (tabla_row h e) (tabla h batch)" by (rule tabla_lists)
  moreover have "sublist (tabla h batch) (reporte_htmlBody h batch)"
    unfolding reporte_htmlBody_def sublist_def
    by (metis append.assoc)
  ultimately show ?thesis by (rule sublist_order.order_trans)
qed

lemma ejemplo_users:
  "usuarios ejemplo_world = Some [encabezados, fila_admin, fila_luis, fila_eva]"
  "users_of [encabezados, fila_admin, fila_luis, fila_eva] =
     [getUsers_entry fila_admin, getUsers_entry fila_luis, getUsers_entry fila_eva]"
  "findRow [encabezados, fila_admin, fila_luis, fila_eva] (name (getUsers_entry fila_luis)) = Some 2"
  "findRow [encabezados, fila_admin, fila_luis, fila_eva] (name (getUsers_entry fila_eva)) = Some 3"
  by (simp_all add: ejemplo_world_def users_of_def findRow_def getUsers_entry_def cellAt_def
      fila_admin_def fila_luis_def fila_eva_def)

lemma ejemplo_dias:
  "dias_de ejemplo_host (getUsers_entry fila_admin) = 3"
  "dias_de ejemplo_host (getUsers_entry fila_luis) = 8"
  "dias_de ejemplo_host (getUsers_entry fila_eva) = 15"
  "active (getUsers_entry fila_admin)"
  "active (getUsers_entry fila_luis)"
  "active (getUsers_entry fila_eva)"
  by (simp_all add: dias_de_def getDaysSinceLastAccess_def getUsers_entry_def cellAt_def
      fila_admin_def fila_luis_def fila_eva_def ejemplo_host_def)

lemma ejemplo_vencidos:
  "filter (vencido ejemplo_host) (users_of [encabezados, fila_admin, fila_luis, fila_eva]) =
     [getUsers_entry fila_luis, getUsers_entry fila_eva]"
  by (simp add: ejemplo_users vencido_def ejemplo_dias)

text \<open>
  Claim C5, as stated, fails: the daily check does not call the processor for inactive
  users. On the example registry, where both mail gateways deliver and two users are due,
  the run makes five calls, none of them \<^verbatim>\<open>sendNotification\<close>, and the only mail in the
  outbox is the report.
\<close>

theorem sweep_no_alert_example:
  "map (vencido ejemplo_host) (users_of (the (usuarios ejemplo_world))) = [False, True, True] \<and>
   rich_delivers ejemplo_host ejemplo_world \<and> plain_delivers ejemplo_host ejemplo_world \<and>
   filter is_SendNotification
     (calls (after (verificarUsuariosInactivos ejemplo_host ejemplo_world))) = [] \<and>
   map m_subject (outbox (after (verificarUsuariosInactivos ejemplo_host ejemplo_world))) =
     [reporte_subject ejemplo_host] \<and>
   length (calls (after (verificarUsuariosInactivos ejemplo_host ejemplo_world))) = 5"
proof -
  have e: "outbox ejemplo_world = []" "calls ejemplo_world = []" by (simp_all add: ejemplo_world_def)
  have v: "map (vencido ejemplo_host) (users_of (the (usuarios ejemplo_world))) = [False, True, True]"
    by (simp add: ejemplo_users vencido_def ejemplo_dias)
  show ?thesis
    using v ejemplo_delivers(1,2)
    by (simp add: verificarUsuariosInactivos_eq [OF ejemplo_users(1)] ejemplo_vencidos e
        llamadas_def ejemplo_users)
qed

text \<open>
  Claim C5, amended. The daily check returns and never calls \<^verbatim>\<open>sendNotification\<close>. For
  every user that is due it calls \<^verbatim>\<open>logEvent\<close> itself, with type USUARIO_INACTIVO, the
  user's name, status ALERTA and the action of an automatic deactivation, and the audit
  sheet receives these rows when it takes them; the user's entry is in the batch of the
  one report the run sends, and the row of the entry is part of the report's body. The
  outbox grows by the report at most.
\<close>

theorem sweep_audits_in_place:
  assumes "usuarios w = Some data"
  shows
    "returns (verificarUsuariosInactivos h w) \<and>
     filter is_SendNotification
       (drop (length (calls w)) (calls (after (verificarUsuariosInactivos h w)))) = [] \<and>
     (\<forall>u \<in> set (users_of data). vencido h u \<longrightarrow>
        LogEvent (inactivo_event u (dias_de h u)) \<in>
          set (drop (length (calls w)) (calls (after (verificarUsuariosInactivos h w)))) \<and>
        SendHtmlNotification (reporte_subject h)
            (reporte_htmlBody h (map (entrada h) (filter (vencido h) (users_of data)))) \<in>
          set (drop (length (calls w)) (calls (after (verificarUsuariosInactivos h w)))) \<and>
        entrada h u \<in> set (map (entrada h) (filter (vencido h) (users_of data))) \<and>
        sublist (tabla_row h (entrada h u))
          (reporte_htmlBody h (map (entrada h) (filter (vencido h) (users_of data))))) \<and>
     ev_type (inactivo_event u0 d) = Str ''USUARIO_INACTIVO'' \<and>
     ev_user (inactivo_event u0 d) = name u0 \<and>
     ev_status (inactivo_event u0 d) = Str ''ALERTA'' \<and>
     ev_action (inactivo_event u0 d) = Str (''Desactivado autom'' @ [CHR 0xE1] @ ''ticamente'') \<and>
     (audit_writes h w \<longrightarrow>
        registroDeEventos (after (verificarUsuariosInactivos h w)) =
          Some (the (registroDeEventos w) @
            map (\<lambda>u. audit_row h (inactivo_event u (dias_de h u)))
              (filter (vencido h) (users_of data)))) \<and>
     outbox (after (verificarUsuariosInactivos h w)) =
       outbox w @
         (if filter (vencido h) (users_of data) \<noteq> [] \<and> rich_delivers h w
          then [\<lparr>m_recipient = the (config_of h w) ''emailNotificacion'',
                 m_subject = reporte_subject h, m_body = [],
                 m_htmlBody = Some (reporte_htmlBody h
                   (map (entrada h) (filter (vencido h) (users_of data))))\<rparr>]
          else [])"
proof -
  note eq = verificarUsuariosInactivos_eq [OF assms, of h]
  let ?due = "filter (vencido h) (users_of data)"
  have 1: "returns (verificarUsuariosInactivos h w)" by (simp add: eq)
  have 2: "filter is_SendNotification
       (drop (length (calls w)) (calls (after (verificarUsuariosInactivos h w)))) = []"
    by (simp add: eq llamadas_all_no_alert)
  have 3: "LogEvent (inactivo_event u (dias_de h u)) \<in>
          set (drop (length (calls w)) (calls (after (verificarUsuariosInactivos h w)))) \<and>
        SendHtmlNotification (reporte_subject h) (reporte_htmlBody h (map (entrada h) ?due)) \<in>
          set (drop (length (calls w)) (calls (after (verificarUsuariosInactivos h w)))) \<and>
        entrada h u \<in> set (map (entrada h) ?due) \<and>
        sublist (tabla_row h (entrada h u)) (reporte_htmlBody h (map (entrada h) ?due))"
    if "u \<in> set (users_of data)" "vencido h u" for u
  proof -
    from that have m: "u \<in> set ?due" by simp
    then have ne: "?due \<noteq> []" by (metis empty_iff empty_set)
    have e: "entrada h u \<in> set (map (entrada h) ?due)" using m by (simp del: set_filter filter_set)
    have "LogEvent (inactivo_event u (dias_de h u)) \<in> set (concat (map (llamadas data h) ?due))"
      using m llamadas_LogEvent [of u h data] by auto
    then show ?thesis using ne e reporte_lists [OF e] by (simp add: eq)
  qed
  have 4: "ev_type (inactivo_event u0 d) = Str ''USUARIO_INACTIVO''"
    "ev_user (inactivo_event u0 d) = name u0"
    "ev_status (inactivo_event u0 d) = Str ''ALERTA''"
    "ev_action (inactivo_event u0 d) = Str (''Desactivado autom'' @ [CHR 0xE1] @ ''ticamente'')"
    by (simp_all add: inactivo_event_def)
  have 5: "audit_writes h w \<longrightarrow>
        registroDeEventos (after (verificarUsuariosInactivos h w)) =
          Some (the (registroDeEventos w) @
            map (\<lambda>u. audit_row h (inactivo_event u (dias_de h u))) ?due)"
    by (auto simp add: eq audit_writes_def)
  have 6: "outbox (after (verificarUsuariosInactivos h w)) =
       outbox w @
         (if ?due \<noteq> [] \<and> rich_delivers h w
          then [\<lparr>m_recipient = the (config_of h w) ''emailNotificacion'',
                 m_subject = reporte_subject h, m_body = [],
                 m_htmlBody = Some (reporte_htmlBody h (map (entrada h) ?due))\<rparr>]
          else [])"
    by (simp add: eq)
  from 1 2 3 4 5 6 show ?thesis by blast
qed

theorem sweep_audits_in_place_witness:
  "usuarios ejemplo_world \<noteq> None \<and>
   getUsers_entry fila_luis \<in> set (users_of (the (usuarios ejemplo_world))) \<and>
   vencido ejemplo_host (getUsers_entry fila_luis) \<and>
   audit_writes ejemplo_host ejemplo_world \<and>
   LogEvent (inactivo_event (getUsers_entry fila_luis) 8) \<in>
     set (calls (after (verificarUsuariosInactivos ejemplo_host ejemplo_world))) \<and>
   sublist (tabla_row ejemplo_host (entrada ejemplo_host (getUsers_entry fila_luis)))
     (reporte_htmlBody ejemplo_host
        (map (entrada ejemplo_host)
           (filter (vencido ejemplo_host) (users_of (the (usuarios ejemplo_world)))))) \<and>
   filter is_SendNotification
     (calls (after (verificarUsuariosInactivos ejemplo_host ejemplo_world))) = [] \<and>
   length (the (registroDeEventos
     (after (verificarUsuariosInactivos ejemplo_host ejemplo_world)))) = 3"
proof -
  note t = sweep_audits_in_place [OF ejemplo_users(1), of ejemplo_host "getUsers_entry fila_luis" 8]
  have m: "getUsers_entry fila_luis \<in> set (users_of [encabezados, fila_admin, fila_luis, fila_eva])"
    by (simp add: ejemplo_users)
  have v: "vencido ejemplo_host (getUsers_entry fila_luis)" by (simp add: vencido_def ejemplo_dias)
  have a: "audit_writes ejemplo_host ejemplo_world"
    by (simp add: audit_writes_def ejemplo_world_def ejemplo_host_def)
  have e: "calls ejemplo_world = []" "length (the (registroDeEventos ejemplo_world)) = 1"
    by (simp_all add: ejemplo_world_def)
  from t have b: "\<forall>u \<in> set (users_of [encabezados, fila_admin, fila_luis, fila_eva]).
      vencido ejemplo_host u \<longrightarrow>
        LogEvent (inactivo_event u (dias_de ejemplo_host u)) \<in>
          set (drop (length (calls ejemplo_world))
            (calls (after (verificarUsuariosInactivos ejemplo_host ejemplo_world)))) \<and>
        sublist (tabla_row ejemplo_host (entrada ejemplo_host u))
          (reporte_htmlBody ejemplo_host (map (entrada ejemplo_host)
            (filter (vencido ejemplo_host) (users_of [encabezados, fila_admin, fila_luis, fila_eva]))))"
    by blast
  from b m v have "LogEvent (inactivo_event (getUsers_entry fila_luis) 8) \<in>
     set (calls (after (verificarUsuariosInactivos ejemplo_host ejemplo_world)))"
    "sublist (tabla_row ejemplo_host (entrada ejemplo_host (getUsers_entry fila_luis)))
       (reporte_htmlBody ejemplo_host (map (entrada ejemplo_host)
          (filter (vencido ejemplo_host) (users_of [encabezados, fila_admin, fila_luis, fila_eva]))))"
    by (auto simp add: e ejemplo_dias)
  moreover from t have "filter is_SendNotification
     (calls (after (verificarUsuariosInactivos ejemplo_host ejemplo_world))) = []"
    by (simp add: e)
  moreover from t a have "length (the (registroDeEventos
     (after (verificarUsuariosInactivos ejemplo_host ejemplo_world)))) = 3"
    by (simp add: e ejemplo_vencidos)
  ultimately show ?thesis using m v a by (simp add: ejemplo_users(1))
qed

lemma show_nat_8_15: "show_nat 8 = ''8''" "show_nat 15 = ''15''"
  by (simp_all add: show_nat.simps digit_def)

lemma getDaysSinceLastAccess_Date:
  assumes "int d * 86400000 \<le> now h - t" and "now h - t < (int d + 1) * 86400000"
  shows "getDaysSinceLastAccess h (Date t) = Some d"
proof -
  have "0 \<le> now h - t" using assms(1) by (smt (verit) mult_nonneg_nonneg of_nat_0_le_iff)
  then have a: "\<bar>now h - t\<bar> = now h - t" by simp
  have "now h - t = 86400000 * int d + (now h - t - int d * 86400000)" by simp
  moreover have "0 \<le> now h - t - int d * 86400000" using assms(1) by simp
  moreover have "now h - t - int d * 86400000 < 86400000" using assms(2) by (simp add: algebra_simps)
  ultimately have "(now h - t) div 86400000 = int d" by (rule int_div_pos_eq)
  then show ?thesis by (simp add: getDaysSinceLastAccess_def a)
qed

lemma getDaysSinceLastAccess_recent:
  assumes "\<bar>now h - t\<bar> < 8 * 86400000"
  shows "\<exists>d. getDaysSinceLastAccess h (Date t) = Some d \<and> d \<le> 7"
proof -
  have "\<bar>now h - t\<bar> div 86400000 \<le> 7" using assms by simp
  then show ?thesis by (simp add: getDaysSinceLastAccess_def)
qed

text \<open>
  Claim C2, as stated, fails when two of the users carry the same name. On the registry
  of Ana (3 days), Ana (8 days) and Eva (15 days), all active, the daily check finds the
  first row named Ana for the user of the second: it writes FALSE into the row of the user
  seen 3 days ago and leaves the user seen 8 days ago active.
\<close>

theorem sweep_same_name:
  "map (\<lambda>r. getDaysSinceLastAccess ejemplo_host (cellAt r 6)) [fila_admin, fila_ana8, fila_eva] =
     [Some 3, Some 8, Some 15] \<and>
   map active (users_of (the (usuarios world_homonimos))) = [True, True, True] \<and>
   usuarios_cell (after (verificarUsuariosInactivos ejemplo_host world_homonimos)) 2 5 = Str ''FALSE'' \<and>
   usuarios_cell (after (verificarUsuariosInactivos ejemplo_host world_homonimos)) 3 5 = Bool True \<and>
   usuarios_cell (after (verificarUsuariosInactivos ejemplo_host world_homonimos)) 4 5 = Str ''FALSE'' \<and>
   map active (users_of (the (usuarios
     (after (verificarUsuariosInactivos ejemplo_host world_homonimos))))) = [False, True, False]"
proof -
  let ?data = "[encabezados, fila_admin, fila_ana8, fila_eva]"
  let ?w1 = "after (verificarUsuariosInactivos ejemplo_host world_homonimos)"
  have u0: "usuarios world_homonimos = Some ?data" by (simp add: world_homonimos_def)
  have dd: "map (\<lambda>r. getDaysSinceLastAccess ejemplo_host (cellAt r 6)) [fila_admin, fila_ana8, fila_eva] =
     [Some 3, Some 8, Some 15]"
    by (simp add: getDaysSinceLastAccess_def ejemplo_host_def cellAt_def fila_admin_def
        fila_ana8_def fila_eva_def)
  have us: "users_of ?data = [getUsers_entry fila_admin, getUsers_entry fila_ana8, getUsers_entry fila_eva]"
    by (simp add: users_of_def cellAt_def fila_admin_def fila_ana8_def fila_eva_def)
  have f: "name (getUsers_entry fila_ana8) = Str ''Ana''" "name (getUsers_entry fila_eva) = Str ''Eva''"
    "active (getUsers_entry fila_admin)" "active (getUsers_entry fila_ana8)"
    "active (getUsers_entry fila_eva)"
    "lastAccess (getUsers_entry fila_admin) = cellAt fila_admin 6"
    "lastAccess (getUsers_entry fila_ana8) = cellAt fila_ana8 6"
    "lastAccess (getUsers_entry fila_eva) = cellAt fila_eva 6"
    by (simp_all add: getUsers_entry_def cellAt_def fila_admin_def fila_ana8_def fila_eva_def)
  have due: "filter (vencido ejemplo_host) (users_of ?data) =
      [getUsers_entry fila_ana8, getUsers_entry fila_eva]"
    using dd by (simp add: us vencido_def dias_de_def f)
  have fr: "findRow ?data (Str ''Ana'') = Some 1"
    by (simp add: findRow_def cellAt_def fila_admin_def)
  have s1: "desactivar ?data (Str ''Ana'') =
      [encabezados, fila_admin [4 := Str ''FALSE''], fila_ana8, fila_eva]"
    unfolding desactivar_def fr by (simp add: setCell_def fila_admin_def)
  have fr2: "findRow [encabezados, fila_admin [4 := Str ''FALSE''], fila_ana8, fila_eva] (Str ''Eva'') = Some 3"
    by (simp add: findRow_def cellAt_def fila_admin_def fila_ana8_def fila_eva_def)
  have s2: "desactivar [encabezados, fila_admin [4 := Str ''FALSE''], fila_ana8, fila_eva] (Str ''Eva'') =
      [encabezados, fila_admin [4 := Str ''FALSE''], fila_ana8, fila_eva [4 := Str ''FALSE'']]"
    unfolding desactivar_def fr2 by (simp add: setCell_def fila_eva_def)
  have u1: "usuarios ?w1 =
      Some [encabezados, fila_admin [4 := Str ''FALSE''], fila_ana8, fila_eva [4 := Str ''FALSE'']]"
    by (simp add: verificarUsuariosInactivos_eq [OF u0] due f s1 s2)
  have cells: "usuarios_cell ?w1 2 5 = Str ''FALSE''" "usuarios_cell ?w1 3 5 = Bool True"
    "usuarios_cell ?w1 4 5 = Str ''FALSE''"
    by (simp_all add: usuarios_cell_def u1 rowAt_def cellAt_def fila_admin_def fila_ana8_def
        fila_eva_def)
  have a1: "map active (users_of [encabezados, fila_admin [4 := Str ''FALSE''], fila_ana8,
      fila_eva [4 := Str ''FALSE'']]) = [False, True, False]"
    by (simp add: users_of_def getUsers_entry_def cellAt_def fila_admin_def fila_ana8_def
        fila_eva_def)
  show ?thesis using dd cells a1 f by (simp add: u0 us u1)
qed

text \<open>
  Claim C2, amended. On a registry of three active users with pairwise different names,
  whose last access lies 3, 8 and 15 whole days before the host's clock, the day counts
  are 3, 8 and 15 and the daily check returns; it writes the string FALSE into the Active
  cell of the second and the third user and leaves every other cell; it logs two events
  USUARIO_INACTIVO, with 8 and with 15 days, which are the two rows the audit sheet
  receives; and it calls the report once, with both users and their day counts, which is
  the one mail of the run when the gateway delivers; the body of the report holds a
  table cell with each of the two names and a cell with each of the two day counts. On
  any registry where the last access of every active user is a date less than 8 days
  from the clock, the daily check leaves the world as it is: no cell written, no event,
  no report.
\<close>

theorem sweep_three_users:
  assumes u: "usuarios w = Some
        [hdr,
         [Str n1, e1, ro1, g1, a1, dr1, Date t1],
         [Str n2, e2, ro2, g2, a2, dr2, Date t2],
         [Str n3, e3, ro3, g3, a3, dr3, Date t3]]"
    and names: "n1 \<noteq> []" "n2 \<noteq> []" "n3 \<noteq> []" "n1 \<noteq> n2" "n1 \<noteq> n3" "n2 \<noteq> n3"
    and act: "true_like a1" "true_like a2" "true_like a3"
    and seen: "3 * 86400000 \<le> now h - t1" "now h - t1 < 4 * 86400000"
      "8 * 86400000 \<le> now h - t2" "now h - t2 < 9 * 86400000"
      "15 * 86400000 \<le> now h - t3" "now h - t3 < 16 * 86400000"
  shows
    \<open>getDaysSinceLastAccess h (Date t1) = Some 3 \<and>
     getDaysSinceLastAccess h (Date t2) = Some 8 \<and>
     getDaysSinceLastAccess h (Date t3) = Some 15 \<and>
     returns (verificarUsuariosInactivos h w) \<and>
     usuarios (after (verificarUsuariosInactivos h w)) = Some
        [hdr,
         [Str n1, e1, ro1, g1, a1, dr1, Date t1],
         [Str n2, e2, ro2, g2, Str ''FALSE'', dr2, Date t2],
         [Str n3, e3, ro3, g3, Str ''FALSE'', dr3, Date t3]] \<and>
     calls (after (verificarUsuariosInactivos h w)) =
       calls w @
         [SetValue 3 5 (Str ''FALSE''),
          LogEvent \<lparr> ev_type = Str ''USUARIO_INACTIVO'', ev_user = Str n2,
                     ev_details = Str (''8 d'' @ [CHR 0xED] @ ''as sin actividad''),
                     ev_status = Str ''ALERTA'',
                     ev_action = Str (''Desactivado autom'' @ [CHR 0xE1] @ ''ticamente'') \<rparr>,
          SetValue 4 5 (Str ''FALSE''),
          LogEvent \<lparr> ev_type = Str ''USUARIO_INACTIVO'', ev_user = Str n3,
                     ev_details = Str (''15 d'' @ [CHR 0xED] @ ''as sin actividad''),
                     ev_status = Str ''ALERTA'',
                     ev_action = Str (''Desactivado autom'' @ [CHR 0xE1] @ ''ticamente'') \<rparr>,
          SendHtmlNotification (reporte_subject h)
            (reporte_htmlBody h
               [\<lparr> i_name = Str n2, i_group = g2, i_days = 8 \<rparr>,
                \<lparr> i_name = Str n3, i_group = g3, i_days = 15 \<rparr>])] \<and>
     (audit_writes h w \<longrightarrow>
        registroDeEventos (after (verificarUsuariosInactivos h w)) =
          Some (the (registroDeEventos w) @
            [[Date (now h), Str ''USUARIO_INACTIVO'', Str n2,
              Str (''8 d'' @ [CHR 0xED] @ ''as sin actividad''), Str ''ALERTA'',
              Str (''Desactivado autom'' @ [CHR 0xE1] @ ''ticamente'')],
             [Date (now h), Str ''USUARIO_INACTIVO'', Str n3,
              Str (''15 d'' @ [CHR 0xED] @ ''as sin actividad''), Str ''ALERTA'',
              Str (''Desactivado autom'' @ [CHR 0xE1] @ ''ticamente'')]])) \<and>
     outbox (after (verificarUsuariosInactivos h w)) =
       outbox w @
         (if rich_delivers h w
          then [\<lparr>m_recipient = the (config_of h w) ''emailNotificacion'',
                 m_subject = reporte_subject h, m_body = [],
                 m_htmlBody = Some (reporte_htmlBody h
                   [\<lparr> i_name = Str n2, i_group = g2, i_days = 8 \<rparr>,
                    \<lparr> i_name = Str n3, i_group = g3, i_days = 15 \<rparr>])\<rparr>]
          else []) \<and>
     sublist (''<td style="padding: 8px; border: 1px solid #ddd;">'' @ n2 @ ''</td>'')
       (reporte_htmlBody h
          [\<lparr> i_name = Str n2, i_group = g2, i_days = 8 \<rparr>,
           \<lparr> i_name = Str n3, i_group = g3, i_days = 15 \<rparr>]) \<and>
     sublist (''<td style="padding: 8px; border: 1px solid #ddd;">8 d'' @ [CHR 0xED] @ ''as</td>'')
       (reporte_htmlBody h
          [\<lparr> i_name = Str n2, i_group = g2, i_days = 8 \<rparr>,
           \<lparr> i_name = Str n3, i_group = g3, i_days = 15 \<rparr>]) \<and>
     sublist (''<td style="padding: 8px; border: 1px solid #ddd;">'' @ n3 @ ''</td>'')
       (reporte_htmlBody h
          [\<lparr> i_name = Str n2, i_group = g2, i_days = 8 \<rparr>,
           \<lparr> i_name = Str n3, i_group = g3, i_days = 15 \<rparr>]) \<and>
     sublist (''<td style="padding: 8px; border: 1px solid #ddd;">15 d'' @ [CHR 0xED] @ ''as</td>'')
       (reporte_htmlBody h
          [\<lparr> i_name = Str n2, i_group = g2, i_days = 8 \<rparr>,
           \<lparr> i_name = Str n3, i_group = g3, i_days = 15 \<rparr>]) \<and>
     (\<forall>data0. usuarios w0 = Some data0 \<and>
        (\<forall>u0 \<in> set (users_of data0). active u0 \<longrightarrow>
           (\<exists>t. lastAccess u0 = Date t \<and> \<bar>now h0 - t\<bar> < 8 * 86400000)) \<longrightarrow>
        verificarUsuariosInactivos h0 w0 = Ret () w0)\<close>
proof -
  have days: "getDaysSinceLastAccess h (Date t1) = Some 3"
    "getDaysSinceLastAccess h (Date t2) = Some 8"
    "getDaysSinceLastAccess h (Date t3) = Some 15"
    using seen by (simp_all add: getDaysSinceLastAccess_Date)
  let ?r1 = "[Str n1, e1, ro1, g1, a1, dr1, Date t1]"
  let ?r2 = "[Str n2, e2, ro2, g2, a2, dr2, Date t2]"
  let ?r3 = "[Str n3, e3, ro3, g3, a3, dr3, Date t3]"
  let ?data = "[hdr, ?r1, ?r2, ?r3]"
  let ?u1 = "getUsers_entry ?r1" and ?u2 = "getUsers_entry ?r2" and ?u3 = "getUsers_entry ?r3"
  let ?batch = "[\<lparr> i_name = Str n2, i_group = g2, i_days = 8 \<rparr>,
                 \<lparr> i_name = Str n3, i_group = g3, i_days = 15 \<rparr>]"
  have us: "users_of ?data = [?u1, ?u2, ?u3]"
    using names by (simp add: users_of_def cellAt_def)
  have f: "name ?u1 = Str n1" "name ?u2 = Str n2" "name ?u3 = Str n3"
    "group ?u2 = g2" "group ?u3 = g3"
    "active ?u1" "active ?u2" "active ?u3"
    "lastAccess ?u1 = Date t1" "lastAccess ?u2 = Date t2" "lastAccess ?u3 = Date t3"
    using act by (simp_all add: getUsers_entry_def cellAt_def true_like_def)
  have d: "dias_de h ?u1 = 3" "dias_de h ?u2 = 8" "dias_de h ?u3 = 15"
    using days by (simp_all add: dias_de_def f)
  have due: "filter (vencido h) (users_of ?data) = [?u2, ?u3]"
    by (simp add: us vencido_def d f)
  have fr: "findRow ?data (Str n2) = Some 2" "findRow ?data (Str n3) = Some 3"
    using names by (simp_all add: findRow_def cellAt_def)
  have s1: "desactivar ?data (Str n2) = [hdr, ?r1, [Str n2, e2, ro2, g2, Str ''FALSE'', dr2, Date t2], ?r3]"
    by (simp add: desactivar_def fr setCell_def)
  have fr': "findRow [hdr, ?r1, [Str n2, e2, ro2, g2, Str ''FALSE'', dr2, Date t2], ?r3] (Str n3) = Some 3"
    using names by (simp add: findRow_def cellAt_def)
  have s2: "desactivar [hdr, ?r1, [Str n2, e2, ro2, g2, Str ''FALSE'', dr2, Date t2], ?r3] (Str n3) =
      [hdr, ?r1, [Str n2, e2, ro2, g2, Str ''FALSE'', dr2, Date t2],
       [Str n3, e3, ro3, g3, Str ''FALSE'', dr3, Date t3]]"
    by (simp add: desactivar_def fr' setCell_def)
  have en: "map (entrada h) [?u2, ?u3] = ?batch"
    by (simp add: entrada_def f d)
  have ev: "inactivo_event ?u2 8 =
      \<lparr> ev_type = Str ''USUARIO_INACTIVO'', ev_user = Str n2,
        ev_details = Str (''8 d'' @ [CHR 0xED] @ ''as sin actividad''),
        ev_status = Str ''ALERTA'',
        ev_action = Str (''Desactivado autom'' @ [CHR 0xE1] @ ''ticamente'') \<rparr>"
    "inactivo_event ?u3 15 =
      \<lparr> ev_type = Str ''USUARIO_INACTIVO'', ev_user = Str n3,
        ev_details = Str (''15 d'' @ [CHR 0xED] @ ''as sin actividad''),
        ev_status = Str ''ALERTA'',
        ev_action = Str (''Desactivado autom'' @ [CHR 0xE1] @ ''ticamente'') \<rparr>"
    by (simp_all add: inactivo_event_def f show_nat_8_15)
  have ll: "llamadas ?data h ?u2 = [SetValue 3 5 (Str ''FALSE''), LogEvent (inactivo_event ?u2 8)]"
    "llamadas ?data h ?u3 = [SetValue 4 5 (Str ''FALSE''), LogEvent (inactivo_event ?u3 15)]"
    by (simp_all add: llamadas_def f fr d)
  have ar: "audit_row h (inactivo_event ?u2 8) =
      [Date (now h), Str ''USUARIO_INACTIVO'', Str n2,
       Str (''8 d'' @ [CHR 0xED] @ ''as sin actividad''), Str ''ALERTA'',
       Str (''Desactivado autom'' @ [CHR 0xE1] @ ''ticamente'')]"
    "audit_row h (inactivo_event ?u3 15) =
      [Date (now h), Str ''USUARIO_INACTIVO'', Str n3,
       Str (''15 d'' @ [CHR 0xED] @ ''as sin actividad''), Str ''ALERTA'',
       Str (''Desactivado autom'' @ [CHR 0xE1] @ ''ticamente'')]"
    using names by (simp_all add: ev audit_row_def or_else_def)
  note eq = verificarUsuariosInactivos_eq [OF u, of h, unfolded due, simplified]
  have 1: "returns (verificarUsuariosInactivos h w)" by (simp add: eq)
  have 2: "usuarios (after (verificarUsuariosInactivos h w)) = Some
        [hdr, ?r1, [Str n2, e2, ro2, g2, Str ''FALSE'', dr2, Date t2],
         [Str n3, e3, ro3, g3, Str ''FALSE'', dr3, Date t3]]"
    by (simp add: eq f s1 s2)
  have 3: "calls (after (verificarUsuariosInactivos h w)) =
       calls w @
         [SetValue 3 5 (Str ''FALSE''), LogEvent (inactivo_event ?u2 8),
          SetValue 4 5 (Str ''FALSE''), LogEvent (inactivo_event ?u3 15),
          SendHtmlNotification (reporte_subject h) (reporte_htmlBody h ?batch)]"
    using en by (simp add: eq ll)
  have 4: "audit_writes h w \<longrightarrow>
        registroDeEventos (after (verificarUsuariosInactivos h w)) =
          Some (the (registroDeEventos w) @
            [audit_row h (inactivo_event ?u2 8), audit_row h (inactivo_event ?u3 15)])"
    by (auto simp add: eq audit_writes_def d)
  have 5: "outbox (after (verificarUsuariosInactivos h w)) =
       outbox w @
         (if rich_delivers h w
          then [\<lparr>m_recipient = the (config_of h w) ''emailNotificacion'',
                 m_subject = reporte_subject h, m_body = [],
                 m_htmlBody = Some (reporte_htmlBody h ?batch)\<rparr>]
          else [])"
    using en by (simp add: eq)
  let ?e2 = "\<lparr> i_name = Str n2, i_group = g2, i_days = 8 \<rparr>"
  let ?e3 = "\<lparr> i_name = Str n3, i_group = g3, i_days = 15 \<rparr>"
  have rows: "sublist (tabla_row h ?e2) (reporte_htmlBody h ?batch)"
    "sublist (tabla_row h ?e3) (reporte_htmlBody h ?batch)"
    by (rule reporte_lists, simp)+
  have c2: \<open>sublist (''<td style="padding: 8px; border: 1px solid #ddd;">'' @ n2 @ ''</td>'') (tabla_row h ?e2)\<close>
    \<open>sublist (''<td style="padding: 8px; border: 1px solid #ddd;">8 d'' @ [CHR 0xED] @ ''as</td>'') (tabla_row h ?e2)\<close>
    unfolding sublist_def
     apply (rule exI [of _ "''<tr>'' @ [CHR 0x0A] @ ''      ''"])
     apply (simp add: tabla_row_def)
    apply (rule exI [of _ \<open>''<tr>'' @ [CHR 0x0A] @ ''      <td style="padding: 8px; border: 1px solid #ddd;">'' @ n2 @ ''</td>'' @ [CHR 0x0A] @
        ''      <td style="padding: 8px; border: 1px solid #ddd;">'' @ toString h g2 @ ''</td>'' @ [CHR 0x0A] @ ''      ''\<close>])
    apply (simp add: tabla_row_def show_nat_8_15)
    done
  have c3: \<open>sublist (''<td style="padding: 8px; border: 1px solid #ddd;">'' @ n3 @ ''</td>'') (tabla_row h ?e3)\<close>
    \<open>sublist (''<td style="padding: 8px; border: 1px solid #ddd;">15 d'' @ [CHR 0xED] @ ''as</td>'') (tabla_row h ?e3)\<close>
    unfolding sublist_def
     apply (rule exI [of _ "''<tr>'' @ [CHR 0x0A] @ ''      ''"])
     apply (simp add: tabla_row_def)
    apply (rule exI [of _ \<open>''<tr>'' @ [CHR 0x0A] @ ''      <td style="padding: 8px; border: 1px solid #ddd;">'' @ n3 @ ''</td>'' @ [CHR 0x0A] @
        ''      <td style="padding: 8px; border: 1px solid #ddd;">'' @ toString h g3 @ ''</td>'' @ [CHR 0x0A] @ ''      ''\<close>])
    apply (simp add: tabla_row_def show_nat_8_15)
    done
  have 6: \<open>sublist (''<td style="padding: 8px; border: 1px solid #ddd;">'' @ n2 @ ''</td>'') (reporte_htmlBody h ?batch)\<close>
    \<open>sublist (''<td style="padding: 8px; border: 1px solid #ddd;">8 d'' @ [CHR 0xED] @ ''as</td>'') (reporte_htmlBody h ?batch)\<close>
    \<open>sublist (''<td style="padding: 8px; border: 1px solid #ddd;">'' @ n3 @ ''</td>'') (reporte_htmlBody h ?batch)\<close>
    \<open>sublist (''<td style="padding: 8px; border: 1px solid #ddd;">15 d'' @ [CHR 0xED] @ ''as</td>'') (reporte_htmlBody h ?batch)\<close>
    using c2 c3 rows by (blast intro: sublist_order.order_trans)+
  have 7: "verificarUsuariosInactivos h0 w0 = Ret () w0"
    if "usuarios w0 = Some data0 \<and>
        (\<forall>u0 \<in> set (users_of data0). active u0 \<longrightarrow>
           (\<exists>t. lastAccess u0 = Date t \<and> \<bar>now h0 - t\<bar> < 8 * 86400000))" for data0
  proof -
    have "\<not> vencido h0 u0" if m: "u0 \<in> set (users_of data0)" for u0
    proof (cases "active u0")
      case False
      then show ?thesis by (simp add: vencido_def)
    next
      case True
      with \<open>usuarios w0 = Some data0 \<and> _\<close> m obtain t
        where t: "lastAccess u0 = Date t" "\<bar>now h0 - t\<bar> < 8 * 86400000" by blast
      from getDaysSinceLastAccess_recent [OF t(2)] show ?thesis
        by (auto simp add: vencido_def dias_de_def t(1))
    qed
    then have "filter (vencido h0) (users_of data0) = []" by (simp add: filter_empty_conv)
    with that show ?thesis by (intro sweep_nothing_due) auto
  qed
  note 3 = 3 [unfolded ev] and 4 = 4 [unfolded ar]
  from days 1 2 3 4 5 6 7 show ?thesis by blast
qed

theorem sweep_three_users_witness:
  \<open>usuarios ejemplo_world = Some [encabezados, fila_admin, fila_luis, fila_eva] \<and>
   true_like (fila_admin ! 4) \<and> true_like (fila_luis ! 4) \<and> true_like (fila_eva ! 4) \<and>
   map (\<lambda>r. r ! 6) [fila_admin, fila_luis, fila_eva] =
     [Date 86184000000, Date 85752000000, Date 85147200000] \<and>
   map (\<lambda>t. now ejemplo_host - t) [86184000000, 85752000000, 85147200000] =
     [3 * 86400000, 8 * 86400000, 15 * 86400000] \<and>
   getDaysSinceLastAccess ejemplo_host (fila_admin ! 6) = Some 3 \<and>
   getDaysSinceLastAccess ejemplo_host (fila_luis ! 6) = Some 8 \<and>
   getDaysSinceLastAccess ejemplo_host (fila_eva ! 6) = Some 15 \<and>
   usuarios (after (verificarUsuariosInactivos ejemplo_host ejemplo_world)) =
     Some [encabezados, fila_admin, fila_luis [4 := Str ''FALSE''], fila_eva [4 := Str ''FALSE'']] \<and>
   length (the (registroDeEventos (after (verificarUsuariosInactivos ejemplo_host ejemplo_world)))) = 3 \<and>
   map m_subject (outbox (after (verificarUsuariosInactivos ejemplo_host ejemplo_world))) =
     [reporte_subject ejemplo_host] \<and>
   sublist ''<td style="padding: 8px; border: 1px solid #ddd;">Luis</td>''
     (reporte_htmlBody ejemplo_host
        [\<lparr> i_name = Str ''Luis'', i_group = Str ''RH'', i_days = 8 \<rparr>,
         \<lparr> i_name = Str ''Eva'', i_group = Str ''Finanzas'', i_days = 15 \<rparr>]) \<and>
   sublist (''<td style="padding: 8px; border: 1px solid #ddd;">15 d'' @ [CHR 0xED] @ ''as</td>'')
     (reporte_htmlBody ejemplo_host
        [\<lparr> i_name = Str ''Luis'', i_group = Str ''RH'', i_days = 8 \<rparr>,
         \<lparr> i_name = Str ''Eva'', i_group = Str ''Finanzas'', i_days = 15 \<rparr>]) \<and>
   usuarios world_reciente = Some [encabezados, fila_admin] \<and>
   verificarUsuariosInactivos ejemplo_host world_reciente = Ret () world_reciente\<close>
proof -
  have u: "usuarios ejemplo_world = Some
        [encabezados,
         [Str ''Ana'', Str ''ana@empresa.com'', Str ''Admin'', Str ''IT'', Bool True,
          Date 86400000000, Date 86184000000],
         [Str ''Luis'', Str ''luis@empresa.com'', Str ''Viewer'', Str ''RH'', Str ''TRUE'',
          Date 86400000000, Date 85752000000],
         [Str ''Eva'', Str ''eva@empresa.com'', Str ''Editor'', Str ''Finanzas'', Bool True,
          Date 86400000000, Date 85147200000]]"
    by (simp add: ejemplo_world_def fila_admin_def fila_luis_def fila_eva_def)
  have names: "''Ana'' \<noteq> []" "''Luis'' \<noteq> []" "''Eva'' \<noteq> []"
    "''Ana'' \<noteq> ''Luis''" "''Ana'' \<noteq> ''Eva''" "''Luis'' \<noteq> ''Eva''"
    by simp_all
  have act: "true_like (Bool True)" "true_like (Str ''TRUE'')" by (simp_all add: true_like_def)
  have seen: "3 * 86400000 \<le> now ejemplo_host - 86184000000"
    "now ejemplo_host - 86184000000 < 4 * 86400000"
    "8 * 86400000 \<le> now ejemplo_host - 85752000000"
    "now ejemplo_host - 85752000000 < 9 * 86400000"
    "15 * 86400000 \<le> now ejemplo_host - 85147200000"
    "now ejemplo_host - 85147200000 < 16 * 86400000"
    by (simp_all add: ejemplo_host_def)
  note t = sweep_three_users [OF u names act(1) act(2) act(1) seen,
      where ?w0.0 = world_reciente and ?h0.0 = ejemplo_host]
  have r: "usuarios world_reciente = Some [encabezados, fila_admin]"
    by (simp add: world_reciente_def)
  have ur: "users_of [encabezados, fila_admin] = [getUsers_entry fila_admin]"
    by (simp add: users_of_def fila_admin_def cellAt_def)
  have la: "lastAccess (getUsers_entry fila_admin) = Date 86184000000"
    by (simp add: getUsers_entry_def fila_admin_def cellAt_def)
  have near: "\<bar>now ejemplo_host - 86184000000\<bar> < 8 * 86400000"
    by (simp add: ejemplo_host_def)
  from t have "\<forall>data0. usuarios world_reciente = Some data0 \<and>
        (\<forall>u0 \<in> set (users_of data0). active u0 \<longrightarrow>
           (\<exists>t. lastAccess u0 = Date t \<and> \<bar>now ejemplo_host - t\<bar> < 8 * 86400000)) \<longrightarrow>
        verificarUsuariosInactivos ejemplo_host world_reciente = Ret () world_reciente"
    by blast
  then have 1: "verificarUsuariosInactivos ejemplo_host world_reciente = Ret () world_reciente"
    using r near by (simp add: ur la)
  have a: "audit_writes ejemplo_host ejemplo_world"
    by (simp add: audit_writes_def ejemplo_world_def ejemplo_host_def)
  have e: "outbox ejemplo_world = []" "length (the (registroDeEventos ejemplo_world)) = 1"
    by (simp_all add: ejemplo_world_def)
  from t a have 2: "length (the (registroDeEventos
      (after (verificarUsuariosInactivos ejemplo_host ejemplo_world)))) = 3"
    by (simp add: e)
  from t ejemplo_delivers(2) have 3: "map m_subject
      (outbox (after (verificarUsuariosInactivos ejemplo_host ejemplo_world))) =
     [reporte_subject ejemplo_host]"
    by (simp add: e)
  from t have 4: "usuarios (after (verificarUsuariosInactivos ejemplo_host ejemplo_world)) =
     Some [encabezados, fila_admin, fila_luis [4 := Str ''FALSE''], fila_eva [4 := Str ''FALSE'']]"
    by (simp add: fila_admin_def fila_luis_def fila_eva_def)
  from t have days: "getDaysSinceLastAccess ejemplo_host (Date 86184000000) = Some 3"
    "getDaysSinceLastAccess ejemplo_host (Date 85752000000) = Some 8"
    "getDaysSinceLastAccess ejemplo_host (Date 85147200000) = Some 15"
    by blast+
  have 5: "true_like (fila_admin ! 4)" "true_like (fila_luis ! 4)" "true_like (fila_eva ! 4)"
    "getDaysSinceLastAccess ejemplo_host (fila_admin ! 6) = Some 3"
    "getDaysSinceLastAccess ejemplo_host (fila_luis ! 6) = Some 8"
    "getDaysSinceLastAccess ejemplo_host (fila_eva ! 6) = Some 15"
    "map (\<lambda>r. r ! 6) [fila_admin, fila_luis, fila_eva] =
     [Date 86184000000, Date 85752000000, Date 85147200000]"
    using act days by (simp_all add: fila_admin_def fila_luis_def fila_eva_def)
  have 6: "map (\<lambda>t. now ejemplo_host - t) [86184000000, 85752000000, 85147200000] =
     [3 * 86400000, 8 * 86400000, 15 * 86400000]"
    by (simp add: ejemplo_host_def)
  from t have 7: \<open>sublist (''<td style="padding: 8px; border: 1px solid #ddd;">'' @ ''Luis'' @ ''</td>'')
     (reporte_htmlBody ejemplo_host
        [\<lparr> i_name = Str ''Luis'', i_group = Str ''RH'', i_days = 8 \<rparr>,
         \<lparr> i_name = Str ''Eva'', i_group = Str ''Finanzas'', i_days = 15 \<rparr>])\<close>
    \<open>sublist (''<td style="padding: 8px; border: 1px solid #ddd;">15 d'' @ [CHR 0xED] @ ''as</td>'')
     (reporte_htmlBody ejemplo_host
        [\<lparr> i_name = Str ''Luis'', i_group = Str ''RH'', i_days = 8 \<rparr>,
         \<lparr> i_name = Str ''Eva'', i_group = Str ''Finanzas'', i_days = 15 \<rparr>])\<close>
    by blast+
  have 8: \<open>''<td style="padding: 8px; border: 1px solid #ddd;">'' @ ''Luis'' @ ''</td>'' = ''<td style="padding: 8px; border: 1px solid #ddd;">Luis</td>''\<close> by simp
  note 7 = 7 [unfolded 8]
  show ?thesis
    apply (intro conjI)
    apply (rule ejemplo_users(1) 1 2 3 4 5 6 7 r)+
    done
qed

subsection \<open>Deactivation read back\<close>

lemma names_fold_desactivar:
  "map (\<lambda>r. cellAt r 0) (fold (\<lambda>u d. desactivar d (name u)) us data) = map (\<lambda>r. cellAt r 0) data"
  by (induction us arbitrary: data) (simp_all add: names_desactivar)

lemma findRow_names:
  "map (\<lambda>r. cellAt r 0) data' = map (\<lambda>r. cellAt r 0) data \<Longrightarrow> findRow data' nm = findRow data nm"
  unfolding findRow_def by (rule firstMatch_cong) (simp add: drop_map [symmetric])

lemma fold_desactivar_read:
  "cellAt (rowAt (fold (\<lambda>u d. desactivar d (name u)) us data) i) k =
     (if k = 4 \<and> (\<exists>u \<in> set us. findRow data (name u) = Some i) then Str ''FALSE''
      else cellAt (rowAt data i) k)"
proof (induction us arbitrary: data)
  case Nil
  then show ?case by simp
next
  case (Cons u us)
  have "cellAt (rowAt (fold (\<lambda>u d. desactivar d (name u)) us (desactivar data (name u))) i) k =
     (if k = 4 \<and> (\<exists>u' \<in> set us. findRow data (name u') = Some i) then Str ''FALSE''
      else cellAt (rowAt (desactivar data (name u)) i) k)"
    by (simp add: Cons.IH findRow_desactivar)
  then show ?case by (auto simp add: desactivar_read)
qed

lemma sweep_usuarios:
  assumes "usuarios w = Some data"
  shows "usuarios (after (verificarUsuariosInactivos h w)) =
           Some (fold (\<lambda>u d. desactivar d (name u)) (filter (vencido h) (users_of data)) data)"
  by (simp add: verificarUsuariosInactivos_eq [OF assms])

lemma sweep_keeps_FALSE:
  assumes "usuarios w = Some d" and "map (\<lambda>r. cellAt r 0) d = ns" and "cellAt (rowAt d j) 4 = Str ''FALSE''"
  shows "\<exists>d'. usuarios (after (verificarUsuariosInactivos h w)) = Some d' \<and>
           map (\<lambda>r. cellAt r 0) d' = ns \<and> cellAt (rowAt d' j) 4 = Str ''FALSE''"
  using assms by (simp add: sweep_usuarios names_fold_desactivar fold_desactivar_read)

lemma sweeps_keep_FALSE:
  assumes "usuarios w = Some d" and "map (\<lambda>r. cellAt r 0) d = ns" and "cellAt (rowAt d j) 4 = Str ''FALSE''"
  shows "\<exists>d'. usuarios (sweeps hs w) = Some d' \<and>
           map (\<lambda>r. cellAt r 0) d' = ns \<and> cellAt (rowAt d' j) 4 = Str ''FALSE''"
  using assms
proof (induction hs arbitrary: w d)
  case Nil
  then show ?case by (simp add: sweeps_def)
next
  case (Cons h hs)
  from sweep_keeps_FALSE [OF Cons.prems, of h] obtain d1
    where "usuarios (after (verificarUsuariosInactivos h w)) = Some d1"
      "map (\<lambda>r. cellAt r 0) d1 = ns" "cellAt (rowAt d1 j) 4 = Str ''FALSE''" by blast
  from Cons.IH [OF this] show ?case by (simp add: sweeps_def)
qed

lemma user_in_users_of:
  assumes "1 \<le> j" "j < length data" "truthy (name (getUsers_entry (data ! j)))"
  shows "getUsers_entry (data ! j) \<in> set (users_of data)"
proof -
  have "drop 1 data ! (j - 1) = data ! j" using assms(1,2) by simp
  moreover have "j - 1 < length (drop 1 data)" using assms(1,2) by simp
  ultimately have "data ! j \<in> set (drop 1 data)" by (metis nth_mem)
  moreover have "truthy (cellAt (data ! j) 0)" using assms(3) by (simp add: getUsers_entry_def)
  ultimately show ?thesis by (simp add: users_of_def)
qed

text \<open>
  Claim C10, amended. Let a row below the header hold a user with a truthy name who is due,
  and let it be the first row the search by name finds. Then the daily check writes the
  string FALSE into that row's Active cell; the reader takes a cell for active only when it
  is the boolean true or the string TRUE; and after any number of further runs of the
  daily check, with whatever hosts, the sheet has the same rows, the row holds the same
  name and still the string FALSE, its user reads as inactive, and the loop body of the
  daily check returns at once for it: no write, no audit event, no entry in the report.
\<close>

theorem deactivated_stays_inactive:
  assumes w: "usuarios w = Some data"
    and j: "1 \<le> j" "j < length data"
    and nm: "truthy (name (getUsers_entry (data ! j)))"
    and due: "vencido h (getUsers_entry (data ! j))"
    and first: "findRow data (name (getUsers_entry (data ! j))) = Some j"
  shows
    "SetValue (j + 1) 5 (Str ''FALSE'') \<in> set (calls (after (verificarUsuariosInactivos h w))) \<and>
     usuarios_cell (after (verificarUsuariosInactivos h w)) (j + 1) 5 = Str ''FALSE'' \<and>
     (\<forall>r. active (getUsers_entry r) \<longleftrightarrow> cellAt r 4 = Bool True \<or> cellAt r 4 = Str ''TRUE'') \<and>
     (\<forall>hs. \<exists>d2.
        usuarios (sweeps hs (after (verificarUsuariosInactivos h w))) = Some d2 \<and>
        length d2 = length data \<and>
        name (getUsers_entry (d2 ! j)) = name (getUsers_entry (data ! j)) \<and>
        cellAt (d2 ! j) 4 = Str ''FALSE'' \<and>
        \<not> active (getUsers_entry (d2 ! j)) \<and>
        (\<forall>h' acc. verificarUsuario h' (getUsers_entry (d2 ! j)) acc
                     (sweeps hs (after (verificarUsuariosInactivos h w))) =
                   Ret acc (sweeps hs (after (verificarUsuariosInactivos h w)))))"
proof (intro conjI allI)
  let ?u = "getUsers_entry (data ! j)"
  let ?due = "filter (vencido h) (users_of data)"
  let ?w1 = "after (verificarUsuariosInactivos h w)"
  have m: "?u \<in> set ?due" using user_in_users_of [OF j nm] due by simp
  have "SetValue (j + 1) 5 (Str ''FALSE'') \<in> set (llamadas data h ?u)"
    by (simp add: llamadas_def first)
  then have "SetValue (j + 1) 5 (Str ''FALSE'') \<in> set (concat (map (llamadas data h) ?due))"
    using m by auto
  then show "SetValue (j + 1) 5 (Str ''FALSE'') \<in> set (calls ?w1)"
    by (simp add: verificarUsuariosInactivos_eq [OF w])
  define d1 where "d1 = fold (\<lambda>u d. desactivar d (name u)) ?due data"
  have u1: "usuarios ?w1 = Some d1" by (simp add: d1_def sweep_usuarios [OF w])
  have n1: "map (\<lambda>r. cellAt r 0) d1 = map (\<lambda>r. cellAt r 0) data"
    by (simp add: d1_def names_fold_desactivar)
  have c1: "cellAt (rowAt d1 j) 4 = Str ''FALSE''"
    unfolding d1_def using m first by (subst fold_desactivar_read) auto
  show "usuarios_cell ?w1 (j + 1) 5 = Str ''FALSE''"
    by (simp add: usuarios_cell_def u1 c1)
  show "active (getUsers_entry r) \<longleftrightarrow> cellAt r 4 = Bool True \<or> cellAt r 4 = Str ''TRUE''" for r
    by (simp add: getUsers_entry_def)
  fix hs
  from sweeps_keep_FALSE [OF u1 n1 c1, of hs] obtain d2
    where u2: "usuarios (sweeps hs ?w1) = Some d2"
      and n2: "map (\<lambda>r. cellAt r 0) d2 = map (\<lambda>r. cellAt r 0) data"
      and c2: "cellAt (rowAt d2 j) 4 = Str ''FALSE''" by blast
  from n2 have l2: "length d2 = length data" by (rule map_eq_imp_length_eq)
  then have r2: "rowAt d2 j = d2 ! j" using j by (simp add: rowAt_def)
  have "map (\<lambda>r. cellAt r 0) d2 ! j = map (\<lambda>r. cellAt r 0) data ! j" by (simp add: n2)
  then have nm2: "name (getUsers_entry (d2 ! j)) = name ?u"
    using j l2 by (simp add: getUsers_entry_def)
  have a2: "\<not> active (getUsers_entry (d2 ! j))"
    using c2 by (simp add: getUsers_entry_def r2)
  then have "verificarUsuario h' (getUsers_entry (d2 ! j)) acc (sweeps hs ?w1) = Ret acc (sweeps hs ?w1)"
    for h' acc
    by (simp add: verificarUsuario_def)
  with u2 l2 nm2 c2 a2 r2
  show "\<exists>d2. usuarios (sweeps hs ?w1) = Some d2 \<and> length d2 = length data \<and>
        name (getUsers_entry (d2 ! j)) = name ?u \<and> cellAt (d2 ! j) 4 = Str ''FALSE'' \<and>
        \<not> active (getUsers_entry (d2 ! j)) \<and>
        (\<forall>h' acc. verificarUsuario h' (getUsers_entry (d2 ! j)) acc (sweeps hs ?w1) =
                   Ret acc (sweeps hs ?w1))"
    by auto
qed

theorem deactivated_stays_inactive_witness:
  "usuarios ejemplo_world = Some [encabezados, fila_admin, fila_luis, fila_eva] \<and>
   (1::nat) \<le> 2 \<and> 2 < length [encabezados, fila_admin, fila_luis, fila_eva] \<and>
   truthy (name (getUsers_entry fila_luis)) \<and>
   vencido ejemplo_host (getUsers_entry fila_luis) \<and>
   findRow [encabezados, fila_admin, fila_luis, fila_eva] (name (getUsers_entry fila_luis)) = Some 2 \<and>
   usuarios_cell (after (verificarUsuariosInactivos ejemplo_host ejemplo_world)) 3 5 = Str ''FALSE'' \<and>
   active (getUsers_entry
     (the (usuarios (sweeps [ejemplo_host, ejemplo_host]
        (after (verificarUsuariosInactivos ejemplo_host ejemplo_world)))) ! 2)) = False"
proof -
  have j: "(1::nat) \<le> 2" "2 < length [encabezados, fila_admin, fila_luis, fila_eva]" by simp_all
  have r: "[encabezados, fila_admin, fila_luis, fila_eva] ! 2 = fila_luis" by simp
  have nm: "truthy (name (getUsers_entry fila_luis))"
    by (simp add: getUsers_entry_def fila_luis_def cellAt_def)
  have due: "vencido ejemplo_host (getUsers_entry fila_luis)"
    by (simp add: vencido_def ejemplo_dias)
  note fr = ejemplo_users(3)
  note t = deactivated_stays_inactive [OF ejemplo_users(1) j, unfolded r, OF nm due fr]
  from t have 1: "usuarios_cell (after (verificarUsuariosInactivos ejemplo_host ejemplo_world)) 3 5 = Str ''FALSE''"
    by simp
  from t obtain d2 where
    "usuarios (sweeps [ejemplo_host, ejemplo_host]
        (after (verificarUsuariosInactivos ejemplo_host ejemplo_world))) = Some d2"
    "\<not> active (getUsers_entry (d2 ! 2))" by blast
  then have 2: "active (getUsers_entry
     (the (usuarios (sweeps [ejemplo_host, ejemplo_host]
        (after (verificarUsuariosInactivos ejemplo_host ejemplo_world)))) ! 2)) = False"
    by simp
  from 1 2 nm due fr show ?thesis by (simp add: ejemplo_users(1))
qed

lemma dias_15: "getDaysSinceLastAccess ejemplo_host (Date 85147200000) = Some 15"
  by (simp add: getDaysSinceLastAccess_def ejemplo_host_def)

text \<open>
  Claim C10, as stated, fails for a user whose name an earlier row carries. With two due
  rows named Ana, the first run audits and reports both (five calls, one mail) but writes
  twice into the first of the two rows; the second row keeps the boolean true, reads as
  active, and the second run deactivates, audits and reports it again (three more calls,
  a second mail).
\<close>

theorem duplicate_names_reactivated:
  "map (vencido ejemplo_host) (users_of (the (usuarios world_duplicados))) = [True, True] \<and>
   map name (users_of (the (usuarios world_duplicados))) = [Str ''Ana'', Str ''Ana''] \<and>
   length (calls (sweeps [ejemplo_host] world_duplicados)) = 5 \<and>
   length (outbox (sweeps [ejemplo_host] world_duplicados)) = 1 \<and>
   usuarios_cell (sweeps [ejemplo_host] world_duplicados) 2 5 = Str ''FALSE'' \<and>
   usuarios_cell (sweeps [ejemplo_host] world_duplicados) 3 5 = Bool True \<and>
   map active (users_of (the (usuarios (sweeps [ejemplo_host] world_duplicados)))) = [False, True] \<and>
   length (calls (sweeps [ejemplo_host, ejemplo_host] world_duplicados)) = 8 \<and>
   length (outbox (sweeps [ejemplo_host, ejemplo_host] world_duplicados)) = 2"
proof -
  let ?r1 = "[Str ''Ana'', Str ''ana.lopez@empresa.com'', Str ''Editor'', Str ''IT'', Bool True,
         Date 86400000000, Date 85147200000]"
  let ?r1' = "[Str ''Ana'', Str ''ana.lopez@empresa.com'', Str ''Editor'', Str ''IT'', Str ''FALSE'',
         Date 86400000000, Date 85147200000]"
  let ?r2 = "[Str ''Ana'', Str ''ana.ruiz@empresa.com'', Str ''Viewer'', Str ''RH'', Bool True,
         Date 86400000000, Date 85147200000]"
  let ?w1 = "after (verificarUsuariosInactivos ejemplo_host world_duplicados)"
  let ?w2 = "after (verificarUsuariosInactivos ejemplo_host ?w1)"
  have u0: "usuarios world_duplicados = Some [encabezados, ?r1, ?r2]"
    by (simp add: world_duplicados_def)
  have us0: "users_of [encabezados, ?r1, ?r2] = [getUsers_entry ?r1, getUsers_entry ?r2]"
    by (simp add: users_of_def cellAt_def)
  have v: "vencido ejemplo_host (getUsers_entry ?r1)" "vencido ejemplo_host (getUsers_entry ?r2)"
    "\<not> vencido ejemplo_host (getUsers_entry ?r1')"
    using dias_15 by (simp_all add: vencido_def dias_de_def getUsers_entry_def cellAt_def)
  have n: "name (getUsers_entry ?r1) = Str ''Ana''" "name (getUsers_entry ?r2) = Str ''Ana''"
    "name (getUsers_entry ?r1') = Str ''Ana''"
    "active (getUsers_entry ?r2)" "\<not> active (getUsers_entry ?r1')"
    by (simp_all add: getUsers_entry_def cellAt_def)
  have fr: "findRow [encabezados, ?r1, ?r2] (Str ''Ana'') = Some 1"
    "findRow [encabezados, ?r1', ?r2] (Str ''Ana'') = Some 1"
    by (simp_all add: findRow_def cellAt_def)
  have d: "desactivar [encabezados, ?r1, ?r2] (Str ''Ana'') = [encabezados, ?r1', ?r2]"
    "desactivar [encabezados, ?r1', ?r2] (Str ''Ana'') = [encabezados, ?r1', ?r2]"
    by (simp_all add: desactivar_def fr setCell_def)
  have e0: "calls world_duplicados = []" "outbox world_duplicados = []"
    by (simp_all add: world_duplicados_def ejemplo_world_def)
  have rd: "rich_delivers ejemplo_host world_duplicados"
    using ejemplo_delivers(2) by (simp add: world_duplicados_def)
  note eq1 = verificarUsuariosInactivos_eq [OF u0, of ejemplo_host]
  have u1: "usuarios ?w1 = Some [encabezados, ?r1', ?r2]"
    by (simp add: eq1 us0 v n d)
  have c1: "length (calls ?w1) = 5" "length (outbox ?w1) = 1"
    by (simp_all add: eq1 us0 v n e0 llamadas_def fr rd)
  have rd1: "rich_delivers ejemplo_host ?w1" using rd by (simp add: eq1)
  have us1: "users_of [encabezados, ?r1', ?r2] = [getUsers_entry ?r1', getUsers_entry ?r2]"
    by (simp add: users_of_def cellAt_def)
  note eq2 = verificarUsuariosInactivos_eq [OF u1, of ejemplo_host]
  have c2: "length (calls ?w2) = 8" "length (outbox ?w2) = 2"
    using c1 by (simp_all add: eq2 us1 v n llamadas_def fr rd1)
  have cells: "usuarios_cell ?w1 2 5 = Str ''FALSE''" "usuarios_cell ?w1 3 5 = Bool True"
    by (simp_all add: usuarios_cell_def u1 rowAt_def cellAt_def)
  show ?thesis
    using c1 c2 cells v n
    by (simp add: sweeps_def u0 us0 u1 us1)
qed

end
